theory Spec2Isabelle
  imports Complex_Main
begin

section \<open>Python values\<close>

text \<open>
  The program moves JSON documents around as Python values: the search reply
  (\<open>search_response.json()\<close>), the model reply (\<open>json.loads\<close>), the result of
  \<open>get_index_data\<close> and the metrics of \<open>generate_plan\<close> are all dictionaries.
  A dictionary is an association list read with \<open>map_of\<close> (the first binding of a key
  is the one Python holds). A \<open>str\<close> is a list of characters, one per code point. A
  \<open>float\<close> is the rational it denotes; the non-finite floats are not modelled.
\<close>

datatype pyval =
    PNone
  | PBool bool
  | PInt int
  | PFloat rat
  | PStr string
  | PList "pyval list"
  | PDict "(string \<times> pyval) list"

text \<open>Truth value testing, as \<open>if x:\<close> and \<open>x or y\<close> apply it.\<close>

fun truthy :: "pyval \<Rightarrow> bool" where
  "truthy PNone = False"
| "truthy (PBool b) = b"
| "truthy (PInt i) = (i \<noteq> 0)"
| "truthy (PFloat r) = (r \<noteq> 0)"
| "truthy (PStr s) = (s \<noteq> [])"
| "truthy (PList xs) = (xs \<noteq> [])"
| "truthy (PDict kvs) = (kvs \<noteq> [])"

fun type_name :: "pyval \<Rightarrow> string" where
  "type_name PNone = ''NoneType''"
| "type_name (PBool b) = ''bool''"
| "type_name (PInt i) = ''int''"
| "type_name (PFloat r) = ''float''"
| "type_name (PStr s) = ''str''"
| "type_name (PList xs) = ''list''"
| "type_name (PDict kvs) = ''dict''"

subsection \<open>Exceptions\<close>

text \<open>
  An exception is its class and the text \<open>str(e)\<close> gives. The texts of the
  interpreter's own errors are those of CPython 3.12. \<open>LibraryError\<close> stands for
  whatever \<open>requests\<close>, \<open>json\<close> or \<open>boto3\<close> raise that is not a \<open>ClientError\<close>.
\<close>

datatype exn_class =
    AttributeError | TypeError | KeyError | IndexError | ValueError
  | LibraryError | PlainException

datatype exn = Exn exn_class string

definition quoted :: "string \<Rightarrow> string" where
  "quoted s = CHR 0x27 # s @ [CHR 0x27]"

fun exn_str :: "exn \<Rightarrow> string" where
  "exn_str (Exn c m) = m"

definition then_exn :: "exn + 'a \<Rightarrow> ('a \<Rightarrow> exn + 'b) \<Rightarrow> exn + 'b" where
  "then_exn r f = (case r of Inl e \<Rightarrow> Inl e | Inr v \<Rightarrow> f v)"

subsection \<open>Dictionary and sequence operations\<close>

definition dict_get :: "(string \<times> pyval) list \<Rightarrow> string \<Rightarrow> pyval \<Rightarrow> pyval" where
  "dict_get kvs k d = (case map_of kvs k of Some v \<Rightarrow> v | None \<Rightarrow> d)"

text \<open>\<open>x.get(k, d)\<close>: only a dictionary has the method.\<close>

definition py_get :: "pyval \<Rightarrow> string \<Rightarrow> pyval \<Rightarrow> exn + pyval" where
  "py_get x k d =
     (case x of
        PDict kvs \<Rightarrow> Inr (dict_get kvs k d)
      | _ \<Rightarrow> Inl (Exn AttributeError
                 (quoted (type_name x) @ '' object has no attribute '' @ quoted ''get'')))"

text \<open>\<open>len(x)\<close>.\<close>

definition py_len :: "pyval \<Rightarrow> exn + nat" where
  "py_len x =
     (case x of
        PStr s \<Rightarrow> Inr (length s)
      | PList xs \<Rightarrow> Inr (length xs)
      | PDict kvs \<Rightarrow> Inr (length (remdups (map fst kvs)))
      | _ \<Rightarrow> Inl (Exn TypeError
                 (''object of type '' @ quoted (type_name x) @ '' has no len()'')))"

text \<open>
  The items that \<open>enumerate(x[:n])\<close> runs over: a list gives its first \<open>n\<close> items, a
  string its first \<open>n\<close> characters as one-character strings, a dictionary has no
  slice key, and nothing else can be subscripted.
\<close>

definition py_slice_items :: "pyval \<Rightarrow> nat \<Rightarrow> exn + pyval list" where
  "py_slice_items x n =
     (case x of
        PList xs \<Rightarrow> Inr (take n xs)
      | PStr s \<Rightarrow> Inr (map (\<lambda>c. PStr [c]) (take n s))
      | PDict kvs \<Rightarrow> Inl (Exn KeyError ''slice(None, 1000, None)'')
      | _ \<Rightarrow> Inl (Exn TypeError
                 (quoted (type_name x) @ '' object is not subscriptable'')))"

section \<open>Prompt construction: the normalized sample\<close>

text \<open>
  \<open>ChaosPlanGenerator._create_prompt\<close>, the part that builds \<open>sample_docs\<close>. The
  rendering \<open>str(source)\<close> of a whole record is a parameter \<open>render\<close>: it is
  Python's own \<open>str\<close>.

  \<^verbatim>\<open>hits = index_data.get("documents", {}).get("hits", {}).get("hits", [])\<close>
\<close>

definition get_hits :: "pyval \<Rightarrow> exn + pyval" where
  "get_hits index_data =
     then_exn (py_get index_data ''documents'' (PDict [])) (\<lambda>documents.
     then_exn (py_get documents ''hits'' (PDict [])) (\<lambda>outer.
     py_get outer ''hits'' (PList [])))"

text \<open>
  The body of the loop for the hit at position \<open>i\<close> of the slice:
  \<^verbatim>\<open>
  source = hit.get("_source", {})
  message = source.get("message") or source.get("log") or str(source)
  sample_docs.append({
      "doc": i + 1,
      "timestamp": source.get("@timestamp", source.get("timestamp", "N/A")),
      "message": message,
      "level": source.get("level", source.get("severity", "N/A")),
      "service": source.get("service", source.get("app", "N/A"))
  })
  \<close>
\<close>

definition normalize_source :: "(pyval \<Rightarrow> string) \<Rightarrow> nat \<Rightarrow> pyval \<Rightarrow> exn + pyval" where
  "normalize_source render i source =
     then_exn (py_get source ''message'' PNone) (\<lambda>m.
     then_exn (if truthy m then Inr m else py_get source ''log'' PNone) (\<lambda>ml.
     then_exn (Inr (if truthy ml then ml else PStr (render source))) (\<lambda>message.
     then_exn (py_get source ''timestamp'' (PStr ''N/A'')) (\<lambda>ts_default.
     then_exn (py_get source ''@timestamp'' ts_default) (\<lambda>ts.
     then_exn (py_get source ''severity'' (PStr ''N/A'')) (\<lambda>level_default.
     then_exn (py_get source ''level'' level_default) (\<lambda>level.
     then_exn (py_get source ''app'' (PStr ''N/A'')) (\<lambda>service_default.
     then_exn (py_get source ''service'' service_default) (\<lambda>service.
     Inr (PDict [(''doc'', PInt (int i + 1)),
                 (''timestamp'', ts),
                 (''message'', message),
                 (''level'', level),
                 (''service'', service)]))))))))))"

definition normalize_hit :: "(pyval \<Rightarrow> string) \<Rightarrow> nat \<Rightarrow> pyval \<Rightarrow> exn + pyval" where
  "normalize_hit render i hit =
     then_exn (py_get hit ''_source'' (PDict [])) (normalize_source render i)"

text \<open>The loop \<open>for i, hit in enumerate(...)\<close>, appending to \<open>sample_docs\<close>.\<close>

fun sample_loop ::
  "(pyval \<Rightarrow> string) \<Rightarrow> nat \<Rightarrow> pyval list \<Rightarrow> pyval list \<Rightarrow> exn + pyval list" where
  "sample_loop render i [] sample_docs = Inr sample_docs"
| "sample_loop render i (hit # rest) sample_docs =
     (case normalize_hit render i hit of
        Inl e \<Rightarrow> Inl e
      | Inr entry \<Rightarrow> sample_loop render (Suc i) rest (sample_docs @ [entry]))"

definition sample_docs_of :: "(pyval \<Rightarrow> string) \<Rightarrow> pyval \<Rightarrow> exn + pyval list" where
  "sample_docs_of render index_data =
     then_exn (get_hits index_data) (\<lambda>hits.
     then_exn (py_slice_items hits 1000) (\<lambda>items.
     sample_loop render 0 items []))"

text \<open>
  A hit that the loop body accepts: a dictionary whose \<open>_source\<close>, when it has one, is
  a dictionary.
\<close>

definition wf_hit :: "pyval \<Rightarrow> bool" where
  "wf_hit hit =
     (case hit of
        PDict kvs \<Rightarrow> (case dict_get kvs ''_source'' (PDict []) of PDict src \<Rightarrow> True | _ \<Rightarrow> False)
      | _ \<Rightarrow> False)"

text \<open>Reading a field of an entry the loop body returned.\<close>

definition entry_field :: "exn + pyval \<Rightarrow> string \<Rightarrow> pyval option" where
  "entry_field r k = (case r of Inr (PDict fs) \<Rightarrow> map_of fs k | _ \<Rightarrow> None)"

subsection \<open>The fallback chains as the specification words them\<close>

text \<open>
  "\<open>k1\<close>, else \<open>k2\<close>, else \<open>d\<close>" read as fallback on a missing key, and read as
  fallback on a missing or falsy value. These two follow the specification, not the
  code; they are what \<open>normalize_hit\<close> is compared with.
\<close>

definition chain_present ::
  "(string \<times> pyval) list \<Rightarrow> string \<Rightarrow> string \<Rightarrow> pyval \<Rightarrow> pyval" where
  "chain_present src k1 k2 d =
     (case map_of src k1 of
        Some v \<Rightarrow> v
      | None \<Rightarrow> (case map_of src k2 of Some v \<Rightarrow> v | None \<Rightarrow> d))"

definition chain_truthy ::
  "(string \<times> pyval) list \<Rightarrow> string \<Rightarrow> string \<Rightarrow> pyval \<Rightarrow> pyval" where
  "chain_truthy src k1 k2 d =
     (if truthy (dict_get src k1 PNone) then dict_get src k1 PNone
      else if truthy (dict_get src k2 PNone) then dict_get src k2 PNone
      else d)"

definition claimed_entry_by_absence ::
  "(pyval \<Rightarrow> string) \<Rightarrow> nat \<Rightarrow> (string \<times> pyval) list \<Rightarrow> pyval" where
  "claimed_entry_by_absence render i src =
     PDict [(''doc'', PInt (int i + 1)),
            (''timestamp'', chain_present src ''@timestamp'' ''timestamp'' (PStr ''N/A'')),
            (''message'', chain_present src ''message'' ''log'' (PStr (render (PDict src)))),
            (''level'', chain_present src ''level'' ''severity'' (PStr ''N/A'')),
            (''service'', chain_present src ''service'' ''app'' (PStr ''N/A''))]"

definition claimed_entry_by_falsiness ::
  "(pyval \<Rightarrow> string) \<Rightarrow> nat \<Rightarrow> (string \<times> pyval) list \<Rightarrow> pyval" where
  "claimed_entry_by_falsiness render i src =
     PDict [(''doc'', PInt (int i + 1)),
            (''timestamp'', chain_truthy src ''@timestamp'' ''timestamp'' (PStr ''N/A'')),
            (''message'', chain_truthy src ''message'' ''log'' (PStr (render (PDict src)))),
            (''level'', chain_truthy src ''level'' ''severity'' (PStr ''N/A'')),
            (''service'', chain_truthy src ''service'' ''app'' (PStr ''N/A''))]"

subsection \<open>Concrete inputs\<close>

text \<open>
  A rendering to run the definitions with; every theorem below holds for any
  rendering.
\<close>

definition witness_render :: "pyval \<Rightarrow> string" where
  "witness_render v = ''<'' @ type_name v @ ''>''"

text \<open>A record whose \<open>message\<close>, \<open>@timestamp\<close> and \<open>level\<close> are present and empty.\<close>

definition src_empty_fields :: "(string \<times> pyval) list" where
  "src_empty_fields =
     [(''message'', PStr []), (''log'', PStr ''disk full''),
      (''@timestamp'', PStr []), (''timestamp'', PStr ''2024-01-01T00:00:00Z''),
      (''level'', PStr [])]"

definition two_hits :: "pyval" where
  "two_hits = PDict [(''documents'',
      PDict [(''took'', PInt 3),
             (''hits'', PDict [(''hits'',
                PList [PDict [(''_source'', PDict [(''message'', PStr ''started'')])],
                       PDict [(''_id'', PStr ''b'')]])])])]"

section \<open>The model client\<close>

subsection \<open>Subscripting and decimal numerals\<close>

text \<open>\<open>x[k]\<close> for a string key \<open>k\<close>.\<close>

definition py_index_key :: "pyval \<Rightarrow> string \<Rightarrow> exn + pyval" where
  "py_index_key x k =
     (case x of
        PDict kvs \<Rightarrow>
          (case map_of kvs k of Some v \<Rightarrow> Inr v | None \<Rightarrow> Inl (Exn KeyError (quoted k)))
      | PList xs \<Rightarrow> Inl (Exn TypeError ''list indices must be integers or slices, not str'')
      | PStr s \<Rightarrow> Inl (Exn TypeError (''string indices must be integers, not '' @ quoted ''str''))
      | _ \<Rightarrow> Inl (Exn TypeError (quoted (type_name x) @ '' object is not subscriptable'')))"

text \<open>\<open>x[0]\<close>.\<close>

definition py_index_zero :: "pyval \<Rightarrow> exn + pyval" where
  "py_index_zero x =
     (case x of
        PList xs \<Rightarrow>
          (case xs of [] \<Rightarrow> Inl (Exn IndexError ''list index out of range'') | v # _ \<Rightarrow> Inr v)
      | PStr s \<Rightarrow>
          (case s of [] \<Rightarrow> Inl (Exn IndexError ''string index out of range'')
           | c # _ \<Rightarrow> Inr (PStr [c]))
      | PDict kvs \<Rightarrow> Inl (Exn KeyError ''0'')
      | _ \<Rightarrow> Inl (Exn TypeError (quoted (type_name x) @ '' object is not subscriptable'')))"

definition digit_char :: "nat \<Rightarrow> char" where
  "digit_char d = ''0123456789'' ! d"

fun str_nat :: "nat \<Rightarrow> string" where
  "str_nat n = (if n < 10 then [digit_char n] else str_nat (n div 10) @ [digit_char (n mod 10)])"

subsection \<open>The environment of the client\<close>

text \<open>
  What \<open>client.invoke_model\<close> does on one call: it raises a \<open>ClientError\<close> with an error
  code and message, it raises something else, or it returns a response whose body
  \<open>json.loads(response["body"].read())\<close> either fails to decode or decodes to a value.
\<close>

datatype invoke_outcome =
    RaisesClientError string string
  | RaisesOther exn
  | Returns "exn + pyval"

text \<open>
  The environment: whether \<open>boto3.client\<close> raises, the outcome of the \<open>k\<close>-th call (from
  0) of \<open>invoke_model\<close>, and the outcome of \<open>invoke_model_with_response_stream\<close>, which
  raises or gives the events of the stream, each of which fails to decode
  (\<open>json.loads(event["chunk"]["bytes"])\<close>) or decodes to a chunk.
\<close>

record llm_env =
  new_client :: "exn option"
  invoke_model :: "nat \<Rightarrow> invoke_outcome"
  invoke_stream :: "exn + (exn + pyval) list"

text \<open>\<open>LLMClient\<close>: \<open>__init__\<close> sets \<open>max_retries = 3\<close> and \<open>client = None\<close>.\<close>

record llm_client =
  max_retries :: nat
  client_set :: bool

definition llm_client_init :: llm_client where
  "llm_client_init = \<lparr>max_retries = 3, client_set = False\<rparr>"

text \<open>What the client does to the outside, in order.\<close>

datatype event =
    CreateClient
  | InvokeModel nat
  | InvokeStream
  | Print string
  | Sleep nat

subsection \<open>\<open>analyze_with_bedrock\<close>\<close>

text \<open>\<open>response_text = model_response["content"][0]["text"]\<close>\<close>

definition extract_text :: "pyval \<Rightarrow> exn + pyval" where
  "extract_text model_response =
     then_exn (py_index_key model_response ''content'') (\<lambda>content.
     then_exn (py_index_zero content) (\<lambda>block.
     py_index_key block ''text''))"

text \<open>
  The body of the \<open>try\<close> of one attempt. It ends in \<open>return response_text\<close>, in the
  \<open>except ClientError\<close> handler or in the \<open>except Exception\<close> handler; the last two
  print their message.
\<close>

datatype attempt_result =
    Returned pyval
  | BedrockError string string
  | ConnectionFailed string

definition try_attempt :: "invoke_outcome \<Rightarrow> attempt_result" where
  "try_attempt outcome =
     (case outcome of
        RaisesClientError code msg \<Rightarrow> BedrockError code msg
      | RaisesOther e \<Rightarrow> ConnectionFailed (exn_str e)
      | Returns body \<Rightarrow>
          (case then_exn body extract_text of
             Inr response_text \<Rightarrow> Returned response_text
           | Inl e \<Rightarrow> ConnectionFailed (exn_str e)))"

definition error_msg :: "nat \<Rightarrow> attempt_result \<Rightarrow> string" where
  "error_msg attempt r =
     (case r of
        BedrockError code msg \<Rightarrow>
          ''Bedrock error (attempt '' @ str_nat (attempt + 1) @ ''): '' @ code @ '' - '' @ msg
      | ConnectionFailed m \<Rightarrow>
          ''Bedrock connection failed (attempt '' @ str_nat (attempt + 1) @ ''): '' @ m
      | Returned v \<Rightarrow> [])"

text \<open>
  The loop \<open>for attempt in range(self.max_retries)\<close> from \<open>attempt\<close> on, and the
  \<open>raise\<close> after it. The result is what the method returns or raises, with the events
  in order.
\<close>

function attempt_loop ::
  "(nat \<Rightarrow> invoke_outcome) \<Rightarrow> nat \<Rightarrow> nat \<Rightarrow> (exn + pyval) \<times> event list" where
  "attempt_loop call retries attempt =
     (if attempt < retries then
        (case try_attempt (call attempt) of
           Returned response_text \<Rightarrow> (Inr response_text, [InvokeModel attempt])
         | failure \<Rightarrow>
             (let rest = attempt_loop call retries (Suc attempt) in
              (fst rest,
               [InvokeModel attempt, Print (error_msg attempt failure)] @
               (if attempt < retries - 1 then [Sleep (1 * (attempt + 1))] else []) @
               snd rest)))
      else (Inl (Exn PlainException (''All '' @ str_nat retries @ '' attempts failed'')), []))"
  by pat_completeness auto
termination
  by (relation "measure (\<lambda>(call, retries, attempt). retries - attempt)") auto

definition analyze_with_bedrock :: "llm_env \<Rightarrow> llm_client \<Rightarrow> (exn + pyval) \<times> event list" where
  "analyze_with_bedrock env self =
     (if \<not> client_set self then
        (case new_client env of
           Some e \<Rightarrow> (Inl e, [CreateClient])
         | None \<Rightarrow>
             (let r = attempt_loop (invoke_model env) (max_retries self) 0 in
              (fst r, CreateClient # snd r)))
      else attempt_loop (invoke_model env) (max_retries self) 0)"

text \<open>The attempts made and the sleeps taken, read off the events.\<close>

fun attempts_of :: "event list \<Rightarrow> nat list" where
  "attempts_of [] = []"
| "attempts_of (InvokeModel k # evs) = k # attempts_of evs"
| "attempts_of (ev # evs) = attempts_of evs"

fun sleeps_of :: "event list \<Rightarrow> nat list" where
  "sleeps_of [] = []"
| "sleeps_of (Sleep n # evs) = n # sleeps_of evs"
| "sleeps_of (ev # evs) = sleeps_of evs"

definition attempt_fails :: "invoke_outcome \<Rightarrow> bool" where
  "attempt_fails outcome = (case try_attempt outcome of Returned v \<Rightarrow> False | _ \<Rightarrow> True)"

declare attempt_loop.simps [simp del] str_nat.simps [simp del]

text \<open>
  Two environments to run the client in: one that throttles every call, and one whose
  first call is throttled, whose second reply has no \<open>content\<close>, and whose third reply
  carries a text.
\<close>

definition env_throttled :: llm_env where
  "env_throttled =
     \<lparr>new_client = None,
      invoke_model = (\<lambda>k. RaisesClientError ''ThrottlingException'' ''Too many requests''),
      invoke_stream = Inl (Exn LibraryError ''Too many requests'')\<rparr>"

definition env_third_time :: llm_env where
  "env_third_time =
     \<lparr>new_client = None,
      invoke_model = (\<lambda>k.
         if k = 0 then RaisesClientError ''ThrottlingException'' ''Too many requests''
         else if k = 1 then Returns (Inr (PDict [(''type'', PStr ''error'')]))
         else Returns (Inr (PDict [(''content'',
                 PList [PDict [(''type'', PStr ''text''), (''text'', PStr ''Plan'')]])]))),
      invoke_stream = Inr []\<rparr>"

subsection \<open>\<open>analyze_with_bedrock_streaming\<close>\<close>

text \<open>
  The body of the loop over the stream for one decoded chunk: what it yields, if
  anything.
  \<^verbatim>\<open>
  if chunk["type"] == "content_block_delta":
      text = chunk["delta"].get("text", "")
      if text:
          yield text
  \<close>
\<close>

definition delta_text :: "pyval \<Rightarrow> exn + pyval option" where
  "delta_text chunk =
     then_exn (py_index_key chunk ''type'') (\<lambda>ty.
     if ty = PStr ''content_block_delta'' then
       then_exn (py_index_key chunk ''delta'') (\<lambda>delta.
       then_exn (py_get delta ''text'' (PStr [])) (\<lambda>text.
       Inr (if truthy text then Some text else None)))
     else Inr None)"

text \<open>
  The generator, run to its end: the fragments it yields, and the exception that ends
  it when an event fails to decode or the loop body raises.
\<close>

fun stream_loop :: "(exn + pyval) list \<Rightarrow> pyval list \<times> exn option" where
  "stream_loop [] = ([], None)"
| "stream_loop (event # rest) =
     (case then_exn event delta_text of
        Inl e \<Rightarrow> ([], Some e)
      | Inr None \<Rightarrow> stream_loop rest
      | Inr (Some text) \<Rightarrow> (text # fst (stream_loop rest), snd (stream_loop rest)))"

definition open_stream :: "llm_env \<Rightarrow> (pyval list \<times> exn option) \<times> event list" where
  "open_stream env =
     (case invoke_stream env of
        Inl e \<Rightarrow> (([], Some e), [InvokeStream])
      | Inr body \<Rightarrow> (stream_loop body, [InvokeStream]))"

definition analyze_with_bedrock_streaming ::
  "llm_env \<Rightarrow> llm_client \<Rightarrow> (pyval list \<times> exn option) \<times> event list" where
  "analyze_with_bedrock_streaming env self =
     (if \<not> client_set self then
        (case new_client env of
           Some e \<Rightarrow> (([], Some e), [CreateClient])
         | None \<Rightarrow> (fst (open_stream env), CreateClient # snd (open_stream env)))
      else open_stream env)"

text \<open>
  A stream that opens with a \<open>message_start\<close> event and carries three text deltas,
  among an empty delta and a delta without text.
\<close>

definition text_delta :: "string \<Rightarrow> exn + pyval" where
  "text_delta s =
     Inr (PDict [(''type'', PStr ''content_block_delta''), (''index'', PInt 0),
                 (''delta'', PDict [(''type'', PStr ''text_delta''), (''text'', PStr s)])])"

definition env_fragments :: llm_env where
  "env_fragments =
     \<lparr>new_client = None,
      invoke_model = (\<lambda>k. RaisesOther (Exn LibraryError ''unused'')),
      invoke_stream = Inr
        [Inr (PDict [(''type'', PStr ''message_start'')]),
         text_delta ''Root'',
         text_delta [],
         text_delta '' cause'',
         Inr (PDict [(''type'', PStr ''content_block_delta''),
                     (''delta'', PDict [(''type'', PStr ''input_json_delta'')])]),
         text_delta '': pod'',
         Inr (PDict [(''type'', PStr ''message_stop'')])]\<rparr>"

section \<open>The index reader\<close>

text \<open>
  What one HTTP call of the \<open>requests\<close> session does: it raises (no connection, a
  timeout), or it returns a response with a status code, of which \<open>.json()\<close> raises or
  gives the decoded body; the last component is the \<open>HTTPError\<close> that
  \<open>raise_for_status()\<close> raises when it does.
\<close>

datatype http_outcome =
    HttpRaises exn
  | HttpResponse nat "exn + pyval" exn

text \<open>
  \<open>requests\<close> raises from \<open>raise_for_status()\<close> for the client and server error codes,
  and \<open>response.ok\<close> is true when \<open>raise_for_status()\<close> would not raise.
\<close>

definition raises_for_status :: "nat \<Rightarrow> bool" where
  "raises_for_status status_code = (400 \<le> status_code \<and> status_code < 600)"

definition response_ok :: "nat \<Rightarrow> bool" where
  "response_ok status_code = (\<not> raises_for_status status_code)"

datatype http_call = GetMapping | PostSearch

text \<open>\<open>data.get('hits', {}).get('hits', [])\<close>\<close>

definition hits_of :: "pyval \<Rightarrow> exn + pyval" where
  "hits_of data =
     then_exn (py_get data ''hits'' (PDict [])) (\<lambda>outer. py_get outer ''hits'' (PList []))"

text \<open>\<open>data.get('hits', {}).get('total', {}).get('value', 0)\<close>\<close>

definition total_hits_of :: "pyval \<Rightarrow> exn + pyval" where
  "total_hits_of data =
     then_exn (py_get data ''hits'' (PDict [])) (\<lambda>outer.
     then_exn (py_get outer ''total'' (PDict [])) (\<lambda>total.
     py_get total ''value'' (PInt 0)))"

text \<open>
  From \<open>hits = ...\<close> to the \<open>return\<close> of the success dictionary, whose items are
  evaluated in the order written; \<open>mapping_status\<close> and \<open>mapping_json\<close> are the status
  of the mapping response and what its \<open>.json()\<close> does.
\<close>

definition success_result :: "nat \<Rightarrow> exn + pyval \<Rightarrow> pyval \<Rightarrow> exn + pyval" where
  "success_result mapping_status mapping_json data =
     then_exn (hits_of data) (\<lambda>hits.
     then_exn (if response_ok mapping_status then mapping_json else Inr (PDict [])) (\<lambda>mapping.
     then_exn (py_len hits) (\<lambda>sample_size.
     then_exn (total_hits_of data) (\<lambda>total_hits.
     then_exn (py_get data ''took'' (PInt 0)) (\<lambda>took_ms.
     Inr (PDict [(''mapping'', mapping),
                 (''documents'', data),
                 (''sample_size'', PInt (int sample_size)),
                 (''total_hits'', total_hits),
                 (''took_ms'', took_ms),
                 (''success'', PBool True)]))))))"

text \<open>
  The body of the \<open>try\<close> of \<open>get_index_data\<close>, with the calls it makes: the mapping
  request, then the search request, \<open>raise_for_status()\<close> on the search response only,
  \<open>data = search_response.json()\<close>, and the result.
\<close>

definition get_index_data_try ::
  "http_outcome \<Rightarrow> http_outcome \<Rightarrow> (exn + pyval) \<times> http_call list" where
  "get_index_data_try mapping_call search_call =
     (case mapping_call of
        HttpRaises e \<Rightarrow> (Inl e, [GetMapping])
      | HttpResponse mapping_status mapping_json mapping_error \<Rightarrow>
          (case search_call of
             HttpRaises e \<Rightarrow> (Inl e, [GetMapping, PostSearch])
           | HttpResponse search_status search_json search_error \<Rightarrow>
               (if raises_for_status search_status then Inl search_error
                else then_exn search_json (success_result mapping_status mapping_json),
                [GetMapping, PostSearch])))"

text \<open>
  \<open>get_index_data\<close>: the \<open>except Exception as e\<close> handler turns whatever the body
  raised into \<open>{"success": False, "error": str(e)}\<close>. The dashboard's copy of the
  method shows the message with \<open>st.error\<close> first and returns the same value.
\<close>

definition get_index_data :: "http_outcome \<Rightarrow> http_outcome \<Rightarrow> pyval \<times> http_call list" where
  "get_index_data mapping_call search_call =
     (case fst (get_index_data_try mapping_call search_call) of
        Inr result \<Rightarrow> result
      | Inl e \<Rightarrow> PDict [(''success'', PBool False), (''error'', PStr (exn_str e))],
      snd (get_index_data_try mapping_call search_call))"

text \<open>
  The mapping call succeeded when it returned a response that is \<open>ok\<close>. The search call
  succeeded when its response passes \<open>raise_for_status()\<close> and its body decodes to a
  document from which the hits, their number and the total can be read.
\<close>

definition is_ok :: "exn + 'a \<Rightarrow> bool" where
  "is_ok r = (case r of Inr v \<Rightarrow> True | Inl e \<Rightarrow> False)"



text \<open>The success path fields of a result, and the statuses the specification calls 2xx.\<close>

definition success_fields :: "string list" where
  "success_fields = [''mapping'', ''documents'', ''sample_size'', ''total_hits'', ''took_ms'']"

definition is_2xx :: "nat \<Rightarrow> bool" where
  "is_2xx status_code = (200 \<le> status_code \<and> status_code < 300)"

text \<open>Replies of the search backend to run the reader on.\<close>

definition search_body :: pyval where
  "search_body =
     PDict [(''took'', PInt 4),
            (''hits'', PDict [(''total'', PDict [(''value'', PInt 50000)]),
                              (''hits'', PList [PDict [(''_source'',
                                  PDict [(''message'', PStr ''started'')])]])])]"

definition http_error :: "string \<Rightarrow> exn" where
  "http_error m = Exn LibraryError m"


definition mapping_found :: http_outcome where
  "mapping_found = HttpResponse 200 (Inr (PDict [(''app-logs'', PDict [])])) (http_error [])"

definition search_found :: http_outcome where
  "search_found = HttpResponse 200 (Inr search_body) (http_error [])"

definition search_unavailable :: http_outcome where
  "search_unavailable =
     HttpResponse 503 (Inl (Exn ValueError ''Expecting value: line 1 column 1 (char 0)''))
       (http_error ''503 Server Error: Service Unavailable'')"

section \<open>The plan generator\<close>

subsection \<open>\<open>_create_prompt\<close>\<close>

text \<open>
  The format specification \<open>:,\<close> of the total: numbers accept it, a string rejects it
  with a \<open>ValueError\<close>, and the other types do not take a format specification.
\<close>

definition format_comma :: "pyval \<Rightarrow> exn + pyval" where
  "format_comma x =
     (case x of
        PInt i \<Rightarrow> Inr x
      | PBool b \<Rightarrow> Inr x
      | PFloat r \<Rightarrow> Inr x
      | PStr s \<Rightarrow> Inl (Exn ValueError (''Cannot specify '' @ quoted '','' @ '' with '' @ quoted ''s'' @ ''.''))
      | _ \<Rightarrow> Inl (Exn TypeError
                 (''unsupported format string passed to '' @ type_name x @ ''.__format__'')))"

text \<open>
  The prompt is the fixed template with these values put in; the template text and the
  JSON rendering of the sample are not modelled, the values are kept as they are.
\<close>

record prompt =
  prompt_index_name :: string
  prompt_total_hits :: pyval
  prompt_took_ms :: pyval
  prompt_fetched :: nat
  prompt_sample_docs :: "pyval list"
  prompt_focus :: pyval
  prompt_security :: pyval
  prompt_include_external :: pyval

text \<open>
  \<open>_create_prompt\<close>: the sample, then the values of the template in the order the
  f-string evaluates them.
\<close>

definition create_prompt :: "(pyval \<Rightarrow> string) \<Rightarrow> string \<Rightarrow> pyval \<Rightarrow> pyval \<Rightarrow> exn + prompt" where
  "create_prompt render index_name index_data analysis_options =
     then_exn (get_hits index_data) (\<lambda>hits.
     then_exn (sample_docs_of render index_data) (\<lambda>sample_docs.
     then_exn (py_get index_data ''total_hits'' (PInt 0)) (\<lambda>total_hits.
     then_exn (format_comma total_hits) (\<lambda>total_hits.
     then_exn (py_get index_data ''took_ms'' (PInt 0)) (\<lambda>took_ms.
     then_exn (py_len hits) (\<lambda>fetched.
     then_exn (py_get analysis_options ''focus'' (PStr ''All'')) (\<lambda>focus.
     then_exn (py_get analysis_options ''security'' (PBool True)) (\<lambda>security.
     then_exn (py_get analysis_options ''include_external'' (PBool True)) (\<lambda>include_external.
     Inr \<lparr>prompt_index_name = index_name,
          prompt_total_hits = total_hits,
          prompt_took_ms = took_ms,
          prompt_fetched = fetched,
          prompt_sample_docs = sample_docs,
          prompt_focus = focus,
          prompt_security = security,
          prompt_include_external = include_external\<rparr>)))))))))"

subsection \<open>\<open>generate_plan\<close>\<close>

text \<open>\<open>d[k] = v\<close>, and \<open>d.update(...)\<close> with the items in order.\<close>

fun dict_set :: "(string \<times> pyval) list \<Rightarrow> string \<Rightarrow> pyval \<Rightarrow> (string \<times> pyval) list" where
  "dict_set [] k v = [(k, v)]"
| "dict_set ((k', v') # kvs) k v =
     (if k' = k then (k, v) # kvs else (k', v') # dict_set kvs k v)"

fun dict_update ::
  "(string \<times> pyval) list \<Rightarrow> (string \<times> pyval) list \<Rightarrow> (string \<times> pyval) list" where
  "dict_update d [] = d"
| "dict_update d ((k, v) # items) = dict_update (dict_set d k v) items"

text \<open>
  \<open>generate_plan\<close>. \<open>clock n\<close> is the value of the \<open>n\<close>-th call of \<open>time.time()\<close>: call 0
  is \<open>start_time\<close>, and the success branch makes call 1 for \<open>end_time\<close> and call 2 for
  \<open>duration_seconds\<close> before it takes \<open>len(plan)\<close>. Every exception of the body ends in
  the handler, which stores its text in \<open>metrics["error"]\<close>. The result is the returned
  pair with the events of the model client.
\<close>

definition initial_metrics :: "(nat \<Rightarrow> rat) \<Rightarrow> (string \<times> pyval) list" where
  "initial_metrics clock =
     [(''start_time'', PFloat (clock 0)), (''success'', PBool False), (''error'', PNone)]"

definition generate_plan ::
  "(pyval \<Rightarrow> string) \<Rightarrow> (nat \<Rightarrow> rat) \<Rightarrow> llm_env \<Rightarrow> llm_client \<Rightarrow> string \<Rightarrow> pyval \<Rightarrow> pyval \<Rightarrow>
   (pyval \<times> (string \<times> pyval) list) \<times> event list" where
  "generate_plan render clock env self index_name index_data analysis_options =
     (case create_prompt render index_name index_data analysis_options of
        Inl e \<Rightarrow>
          ((PStr [], dict_set (initial_metrics clock) ''error'' (PStr (exn_str e))), [])
      | Inr prompt \<Rightarrow>
          (case fst (analyze_with_bedrock env self) of
             Inl e \<Rightarrow>
               ((PStr [], dict_set (initial_metrics clock) ''error'' (PStr (exn_str e))),
                snd (analyze_with_bedrock env self))
           | Inr plan \<Rightarrow>
               (if truthy plan then
                  (case py_len plan of
                     Inl e \<Rightarrow>
                       ((PStr [],
                         dict_set (initial_metrics clock) ''error'' (PStr (exn_str e))),
                        snd (analyze_with_bedrock env self))
                   | Inr plan_length \<Rightarrow>
                       ((plan,
                         dict_update (initial_metrics clock)
                           [(''success'', PBool True),
                            (''end_time'', PFloat (clock 1)),
                            (''duration_seconds'', PFloat (clock 2 - clock 0)),
                            (''plan_length'', PInt (int plan_length))]),
                        snd (analyze_with_bedrock env self)))
                else
                  ((PStr [],
                    dict_set (initial_metrics clock) ''error'' (PStr ''Empty response from LLM'')),
                   snd (analyze_with_bedrock env self)))))"

text \<open>A clock that advances, an environment whose reply has an empty text, and a fetch result.\<close>

definition clock_half_seconds :: "nat \<Rightarrow> rat" where
  "clock_half_seconds n = 1700000000 + of_nat n / 2"

definition env_empty_reply :: llm_env where
  "env_empty_reply =
     \<lparr>new_client = None,
      invoke_model = (\<lambda>k. Returns (Inr (PDict [(''content'',
                 PList [PDict [(''type'', PStr ''text''), (''text'', PStr [])]])]))),
      invoke_stream = Inr []\<rparr>"

definition fetched_index :: pyval where
  "fetched_index =
     PDict [(''mapping'', PDict []),
            (''documents'', search_body),
            (''sample_size'', PInt 1),
            (''total_hits'', PInt 50000),
            (''took_ms'', PInt 4),
            (''success'', PBool True)]"

definition default_options :: pyval where
  "default_options =
     PDict [(''focus'', PStr ''All''), (''security'', PBool True),
            (''include_external'', PBool True)]"

section \<open>The streaming endpoint\<close>

text \<open>
  \<open>str(x)\<close> inside an f-string: a string is itself, anything else is rendered. A
  server-sent event is \<open>data: \<close>, the payload and two newlines.
\<close>

definition py_str :: "(pyval \<Rightarrow> string) \<Rightarrow> pyval \<Rightarrow> string" where
  "py_str render x = (case x of PStr s \<Rightarrow> s | _ \<Rightarrow> render x)"

definition sse :: "string \<Rightarrow> string" where
  "sse payload = ''data: '' @ payload @ [CHR 0x0A, CHR 0x0A]"

definition error_event :: "string \<Rightarrow> string" where
  "error_event m =
     sse (''{'' @ [CHR 0x22] @ ''error'' @ [CHR 0x22] @ '': '' @ [CHR 0x22] @ m @ [CHR 0x22] @ ''}'')"

text \<open>
  \<open>plan_generator_stream\<close>, run to its end: the events it yields, the HTTP calls and the
  events of the model client. The request gives a new \<open>LLMClient\<close>. An exception anywhere
  in the body ends in the handler, which yields an error event with its text.
\<close>

definition plan_generator_stream ::
  "(pyval \<Rightarrow> string) \<Rightarrow> http_outcome \<Rightarrow> http_outcome \<Rightarrow> llm_env \<Rightarrow> string \<Rightarrow> pyval \<Rightarrow>
   string list \<times> http_call list \<times> event list" where
  "plan_generator_stream render mapping_call search_call env index_name analysis_options =
     (let index_data = fst (get_index_data mapping_call search_call);
          calls = snd (get_index_data mapping_call search_call)
      in case py_get index_data ''success'' PNone of
           Inl e \<Rightarrow> ([error_event (exn_str e)], calls, [])
         | Inr success \<Rightarrow>
             (if \<not> truthy success then
                (case py_get index_data ''error'' PNone of
                   Inl e \<Rightarrow> ([error_event (exn_str e)], calls, [])
                 | Inr err \<Rightarrow>
                     ([error_event (''Failed to fetch index data: '' @ py_str render err)],
                      calls, []))
              else
                (case create_prompt render index_name index_data analysis_options of
                   Inl e \<Rightarrow> ([error_event (exn_str e)], calls, [])
                 | Inr prompt \<Rightarrow>
                     (let run = analyze_with_bedrock_streaming env llm_client_init
                      in (map (\<lambda>chunk. sse (py_str render chunk)) (fst (fst run)) @
                          (case snd (fst run) of
                             None \<Rightarrow> []
                           | Some e \<Rightarrow> [error_event (exn_str e)]),
                          calls, snd run)))))"

section \<open>Verified properties\<close>

subsection \<open>The loop body on a record\<close>

lemma normalize_source_dict:
  "normalize_source render i (PDict src) =
     Inr (PDict [(''doc'', PInt (int i + 1)),
                 (''timestamp'', chain_present src ''@timestamp'' ''timestamp'' (PStr ''N/A'')),
                 (''message'', chain_truthy src ''message'' ''log'' (PStr (render (PDict src)))),
                 (''level'', chain_present src ''level'' ''severity'' (PStr ''N/A'')),
                 (''service'', chain_present src ''service'' ''app'' (PStr ''N/A''))])"
  by (simp add: normalize_source_def then_exn_def py_get_def dict_get_def chain_present_def
        chain_truthy_def split: option.splits)

lemma chain_truthy_not_none: "d \<noteq> PNone \<Longrightarrow> chain_truthy src k1 k2 d \<noteq> PNone"
  by (auto simp: chain_truthy_def)

lemma normalize_hit_wf:
  "wf_hit hit \<Longrightarrow>
     \<exists>fs. normalize_hit render i hit = Inr (PDict fs) \<and>
          map_of fs ''doc'' = Some (PInt (int i + 1))"
  by (auto simp: wf_hit_def normalize_hit_def then_exn_def py_get_def normalize_source_dict
        split: pyval.splits)

lemma sample_loop_wf:
  "\<forall>h \<in> set hs. wf_hit h \<Longrightarrow>
     \<exists>ds. sample_loop render i hs acc = Inr (acc @ ds) \<and> length ds = length hs \<and>
       (\<forall>j < length hs. normalize_hit render (i + j) (hs ! j) = Inr (ds ! j))"
proof (induction hs arbitrary: i acc)
  case Nil
  then show ?case by simp
next
  case (Cons h hs)
  from Cons.prems have wh: "wf_hit h" and rest: "\<forall>x \<in> set hs. wf_hit x" by simp_all
  from normalize_hit_wf [OF wh] obtain fs where fs: "normalize_hit render i h = Inr (PDict fs)"
    by blast
  from Cons.IH [OF rest, of "Suc i" "acc @ [PDict fs]"] obtain ds where
    ds: "sample_loop render (Suc i) hs ((acc @ [PDict fs])) = Inr ((acc @ [PDict fs]) @ ds)"
      "length ds = length hs"
      "\<forall>j < length hs. normalize_hit render (Suc i + j) (hs ! j) = Inr (ds ! j)"
    by blast
  have "sample_loop render i (h # hs) acc = Inr (acc @ (PDict fs # ds))"
    using fs ds(1) by simp
  moreover have "length (PDict fs # ds) = length (h # hs)" using ds(2) by simp
  moreover have "\<forall>j < length (h # hs).
      normalize_hit render (i + j) ((h # hs) ! j) = Inr ((PDict fs # ds) ! j)"
  proof (intro allI impI)
    fix j assume "j < length (h # hs)"
    then show "normalize_hit render (i + j) ((h # hs) ! j) = Inr ((PDict fs # ds) ! j)"
      using fs ds(3) by (cases j) auto
  qed
  ultimately show ?case by blast
qed

text \<open>
  C2. When the fetched hits are a list of \<open>N\<close> well-formed hits, the normalized sample
  has \<open>min N 1000\<close> entries; entry \<open>i\<close> (counting from 0) is the loop body's result on
  hit \<open>i\<close> of the original list, and its \<open>doc\<close> field is \<open>i + 1\<close>. So for
  \<open>N \<le> 1000\<close> every document appears once, in the order returned, numbered \<open>1..N\<close>,
  and for \<open>N > 1000\<close> exactly the first 1000 appear, numbered \<open>1..1000\<close>.
\<close>

theorem sample_docs_order_and_numbering:
  assumes hits: "get_hits index_data = Inr (PList hs)"
    and wf: "\<forall>h \<in> set (take 1000 hs). wf_hit h"
  shows "\<exists>ds. sample_docs_of render index_data = Inr ds \<and>
           length ds = min (length hs) 1000 \<and>
           (\<forall>i < length ds. normalize_hit render i (hs ! i) = Inr (ds ! i) \<and>
              entry_field (Inr (ds ! i)) ''doc'' = Some (PInt (int i + 1)))"
proof -
  from sample_loop_wf [OF wf, of render 0 "[]"] obtain ds where
    ds: "sample_loop render 0 (take 1000 hs) [] = Inr ds"
      "length ds = length (take 1000 hs)"
      "\<forall>j < length (take 1000 hs). normalize_hit render j (take 1000 hs ! j) = Inr (ds ! j)"
    by auto
  have run: "sample_docs_of render index_data = Inr ds"
    using hits ds(1) by (simp add: sample_docs_of_def then_exn_def py_slice_items_def)
  have len: "length ds = min (length hs) 1000" using ds(2) by simp
  have each: "\<forall>i < length ds. normalize_hit render i (hs ! i) = Inr (ds ! i) \<and>
              entry_field (Inr (ds ! i)) ''doc'' = Some (PInt (int i + 1))"
  proof (intro allI impI)
    fix i assume i: "i < length ds"
    then have i': "i < length (take 1000 hs)" using ds(2) by simp
    then have n: "normalize_hit render i (hs ! i) = Inr (ds ! i)" using ds(3) by simp
    have "hs ! i \<in> set (take 1000 hs)"
      using i' by (metis nth_take length_take min_less_iff_conj nth_mem)
    then have "wf_hit (hs ! i)" using wf by blast
    from normalize_hit_wf [OF this, of render i] n
    show "normalize_hit render i (hs ! i) = Inr (ds ! i) \<and>
              entry_field (Inr (ds ! i)) ''doc'' = Some (PInt (int i + 1))"
      by (auto simp: entry_field_def)
  qed
  from run len each show ?thesis by blast
qed

theorem sample_docs_order_and_numbering_witness:
  "get_hits two_hits =
     Inr (PList [PDict [(''_source'', PDict [(''message'', PStr ''started'')])],
                 PDict [(''_id'', PStr ''b'')]]) \<and>
   wf_hit (PDict [(''_source'', PDict [(''message'', PStr ''started'')])]) \<and>
   wf_hit (PDict [(''_id'', PStr ''b'')]) \<and>
   (\<exists>ds. sample_docs_of witness_render two_hits = Inr ds \<and> length ds = 2 \<and>
      entry_field (Inr (ds ! 0)) ''doc'' = Some (PInt 1) \<and>
      entry_field (Inr (ds ! 1)) ''doc'' = Some (PInt 2))"
proof -
  have h: "get_hits two_hits =
     Inr (PList [PDict [(''_source'', PDict [(''message'', PStr ''started'')])],
                 PDict [(''_id'', PStr ''b'')]])"
    by (simp add: get_hits_def two_hits_def then_exn_def py_get_def dict_get_def)
  have w1: "wf_hit (PDict [(''_source'', PDict [(''message'', PStr ''started'')])])"
    and w2: "wf_hit (PDict [(''_id'', PStr ''b'')])"
    by (simp_all add: wf_hit_def dict_get_def)
  then have w: "\<forall>h \<in> set (take 1000
                 [PDict [(''_source'', PDict [(''message'', PStr ''started'')])],
                  PDict [(''_id'', PStr ''b'')]]). wf_hit h"
    by simp
  from sample_docs_order_and_numbering [OF h w, of witness_render] obtain ds where
    ds: "sample_docs_of witness_render two_hits = Inr ds" "length ds = 2"
      "\<forall>i < length ds. entry_field (Inr (ds ! i)) ''doc'' = Some (PInt (int i + 1))"
    by auto
  from ds(2,3) have "entry_field (Inr (ds ! 0)) ''doc'' = Some (PInt 1)"
    "entry_field (Inr (ds ! 1)) ''doc'' = Some (PInt 2)" by auto
  with h w1 w2 ds(1,2) show ?thesis by blast
qed

text \<open>
  C3, as amended. For a hit whose record is the dictionary \<open>src\<close>, the loop body returns
  an entry with all five fields: \<open>doc\<close> is the position plus one; \<open>message\<close> is the
  record's \<open>message\<close> when that is present and truthy, else its \<open>log\<close> when that is
  present and truthy, else the rendering of the whole record, and is never \<open>None\<close>;
  \<open>timestamp\<close>, \<open>level\<close> and \<open>service\<close> are the value under the first key when that
  key is present (whatever the value), else the value under the second key when
  present, else \<open>"N/A"\<close>.
\<close>

theorem normalized_entry_fields:
  assumes src: "py_get hit ''_source'' (PDict []) = Inr (PDict src)"
  shows "\<exists>fs. normalize_hit render i hit = Inr (PDict fs) \<and>
           map_of fs ''doc'' = Some (PInt (int i + 1)) \<and>
           map_of fs ''message'' =
             Some (chain_truthy src ''message'' ''log'' (PStr (render (PDict src)))) \<and>
           map_of fs ''timestamp'' =
             Some (chain_present src ''@timestamp'' ''timestamp'' (PStr ''N/A'')) \<and>
           map_of fs ''level'' = Some (chain_present src ''level'' ''severity'' (PStr ''N/A'')) \<and>
           map_of fs ''service'' = Some (chain_present src ''service'' ''app'' (PStr ''N/A'')) \<and>
           chain_truthy src ''message'' ''log'' (PStr (render (PDict src))) \<noteq> PNone"
proof -
  have "normalize_hit render i hit = normalize_source render i (PDict src)"
    using src by (simp add: normalize_hit_def then_exn_def)
  then show ?thesis
    by (simp add: normalize_source_dict chain_truthy_not_none)
qed

theorem normalized_entry_fields_witness:
  "py_get (PDict [(''_id'', PStr ''a1''), (''_source'', PDict src_empty_fields)])
      ''_source'' (PDict [])
     = Inr (PDict src_empty_fields) \<and>
   entry_field (normalize_hit witness_render 0
      (PDict [(''_id'', PStr ''a1''), (''_source'', PDict src_empty_fields)])) ''message''
     = Some (PStr ''disk full'') \<and>
   entry_field (normalize_hit witness_render 0
      (PDict [(''_id'', PStr ''a1''), (''_source'', PDict src_empty_fields)])) ''timestamp''
     = Some (PStr []) \<and>
   entry_field (normalize_hit witness_render 0
      (PDict [(''_id'', PStr ''a1''), (''_source'', PDict src_empty_fields)])) ''service''
     = Some (PStr ''N/A'')"
proof -
  have h: "py_get (PDict [(''_id'', PStr ''a1''), (''_source'', PDict src_empty_fields)])
      ''_source'' (PDict []) = Inr (PDict src_empty_fields)"
    by (simp add: py_get_def dict_get_def)
  from normalized_entry_fields [OF h, of witness_render 0] h show ?thesis
    by (auto simp: entry_field_def chain_truthy_def chain_present_def dict_get_def
          src_empty_fields_def)
qed

text \<open>
  C3, as stated, fails on the record
  \<open>{"message": "", "log": "disk full", "@timestamp": "", "timestamp": ..., "level": ""}\<close>:
  the entry is neither the one the chains give when "else" means a missing key (its
  message is the \<open>log\<close> value, not the empty \<open>message\<close>), nor the one they give when
  "else" means a missing or empty value (its timestamp is the empty \<open>@timestamp\<close>).
\<close>

theorem claimed_chains_counterexample:
  "normalize_hit witness_render 0 (PDict [(''_source'', PDict src_empty_fields)])
     \<noteq> Inr (claimed_entry_by_absence witness_render 0 src_empty_fields) \<and>
   normalize_hit witness_render 0 (PDict [(''_source'', PDict src_empty_fields)])
     \<noteq> Inr (claimed_entry_by_falsiness witness_render 0 src_empty_fields)"
  by (simp add: normalize_hit_def then_exn_def py_get_def dict_get_def normalize_source_dict
        claimed_entry_by_absence_def claimed_entry_by_falsiness_def chain_truthy_def
        chain_present_def src_empty_fields_def)

text \<open>
  C10. The message falls back on falsiness: when \<open>message\<close> is present with a falsy
  value, the entry's message is the \<open>log\<close> value if that is truthy and the rendering
  of the whole record otherwise. For \<open>timestamp\<close>, \<open>level\<close> and \<open>service\<close> a value
  present under the first key is kept as it is, falsy or not, and the fallback applies
  only when that key is absent.
\<close>

theorem message_falls_back_on_falsiness:
  assumes src: "py_get hit ''_source'' (PDict []) = Inr (PDict src)"
  shows "(\<forall>v. map_of src ''message'' = Some v \<and> \<not> truthy v \<longrightarrow>
            entry_field (normalize_hit render i hit) ''message'' =
              Some (if truthy (dict_get src ''log'' PNone) then dict_get src ''log'' PNone
                    else PStr (render (PDict src)))) \<and>
         (\<forall>v. map_of src ''@timestamp'' = Some v \<longrightarrow>
            entry_field (normalize_hit render i hit) ''timestamp'' = Some v) \<and>
         (\<forall>v. map_of src ''level'' = Some v \<longrightarrow>
            entry_field (normalize_hit render i hit) ''level'' = Some v) \<and>
         (\<forall>v. map_of src ''service'' = Some v \<longrightarrow>
            entry_field (normalize_hit render i hit) ''service'' = Some v) \<and>
         (map_of src ''@timestamp'' = None \<longrightarrow>
            entry_field (normalize_hit render i hit) ''timestamp'' =
              Some (dict_get src ''timestamp'' (PStr ''N/A''))) \<and>
         (map_of src ''level'' = None \<longrightarrow>
            entry_field (normalize_hit render i hit) ''level'' =
              Some (dict_get src ''severity'' (PStr ''N/A''))) \<and>
         (map_of src ''service'' = None \<longrightarrow>
            entry_field (normalize_hit render i hit) ''service'' =
              Some (dict_get src ''app'' (PStr ''N/A'')))"
proof -
  have "normalize_hit render i hit = normalize_source render i (PDict src)"
    using src by (simp add: normalize_hit_def then_exn_def)
  then show ?thesis
    by (simp add: normalize_source_dict entry_field_def chain_truthy_def chain_present_def
          dict_get_def)
qed

theorem message_falls_back_on_falsiness_witness:
  "py_get (PDict [(''_source'', PDict src_empty_fields)]) ''_source'' (PDict [])
     = Inr (PDict src_empty_fields) \<and>
   map_of src_empty_fields ''message'' = Some (PStr []) \<and> \<not> truthy (PStr []) \<and>
   entry_field (normalize_hit witness_render 4 (PDict [(''_source'', PDict src_empty_fields)]))
     ''message'' = Some (PStr ''disk full'') \<and>
   map_of src_empty_fields ''level'' = Some (PStr []) \<and>
   entry_field (normalize_hit witness_render 4 (PDict [(''_source'', PDict src_empty_fields)]))
     ''level'' = Some (PStr []) \<and>
   map_of src_empty_fields ''service'' = None \<and>
   entry_field (normalize_hit witness_render 4 (PDict [(''_source'', PDict src_empty_fields)]))
     ''service'' = Some (PStr ''N/A'')"
proof -
  have h: "py_get (PDict [(''_source'', PDict src_empty_fields)]) ''_source'' (PDict [])
     = Inr (PDict src_empty_fields)"
    by (simp add: py_get_def dict_get_def)
  have m: "map_of src_empty_fields ''message'' = Some (PStr [])"
    and l: "map_of src_empty_fields ''level'' = Some (PStr [])"
    and s: "map_of src_empty_fields ''service'' = None"
    and lg: "dict_get src_empty_fields ''log'' PNone = PStr ''disk full''"
    and ap: "dict_get src_empty_fields ''app'' (PStr ''N/A'') = PStr ''N/A''"
    by (simp_all add: src_empty_fields_def dict_get_def)
  from message_falls_back_on_falsiness [OF h, of witness_render 4] h m l s lg ap
  show ?thesis by simp
qed

subsection \<open>The retry loop\<close>

lemma str_nat_3: "str_nat 3 = ''3''"
  by (simp add: str_nat.simps digit_char_def)

lemma attempt_loop_exhausted:
  "\<not> attempt < retries \<Longrightarrow>
     attempt_loop call retries attempt =
       (Inl (Exn PlainException (''All '' @ str_nat retries @ '' attempts failed'')), [])"
  by (subst attempt_loop.simps) simp

lemma attempt_loop_returned:
  "attempt < retries \<Longrightarrow> try_attempt (call attempt) = Returned v \<Longrightarrow>
     attempt_loop call retries attempt = (Inr v, [InvokeModel attempt])"
  by (subst attempt_loop.simps) simp

lemma attempt_loop_failed:
  "attempt < retries \<Longrightarrow> attempt_fails (call attempt) \<Longrightarrow>
     attempt_loop call retries attempt =
       (fst (attempt_loop call retries (Suc attempt)),
        [InvokeModel attempt, Print (error_msg attempt (try_attempt (call attempt)))] @
        (if attempt < retries - 1 then [Sleep (attempt + 1)] else []) @
        snd (attempt_loop call retries (Suc attempt)))"
  by (subst attempt_loop.simps)
     (simp add: attempt_fails_def Let_def split: attempt_result.splits)

lemma attempts_of_append: "attempts_of (xs @ ys) = attempts_of xs @ attempts_of ys"
  by (induction xs rule: attempts_of.induct) simp_all

lemma attempt_loop_bound:
  "length (attempts_of (snd (attempt_loop call retries attempt))) \<le> retries - attempt"
proof (induction "retries - attempt" arbitrary: attempt)
  case 0
  then have "\<not> attempt < retries" by simp
  then show ?case by (simp add: attempt_loop_exhausted)
next
  case (Suc n)
  then have lt: "attempt < retries" and n: "n = retries - Suc attempt" by simp_all
  show ?case
  proof (cases "attempt_fails (call attempt)")
    case True
    from Suc.hyps(1) [OF n] have "length (attempts_of (snd (attempt_loop call retries (Suc attempt))))
        \<le> retries - Suc attempt" .
    with lt show ?thesis
      by (simp add: attempt_loop_failed [of attempt retries call, OF lt True] attempts_of_append)
  next
    case False
    then obtain v where "try_attempt (call attempt) = Returned v"
      by (auto simp: attempt_fails_def split: attempt_result.splits)
    with lt show ?thesis by (simp add: attempt_loop_returned)
  qed
qed

lemma three_attempts_all_fail:
  assumes "attempt_fails (call 0)" "attempt_fails (call 1)" "attempt_fails (call 2)"
  shows "attempt_loop call 3 0 =
           (Inl (Exn PlainException ''All 3 attempts failed''),
            [InvokeModel 0, Print (error_msg 0 (try_attempt (call 0))), Sleep 1,
             InvokeModel 1, Print (error_msg 1 (try_attempt (call 1))), Sleep 2,
             InvokeModel 2, Print (error_msg 2 (try_attempt (call 2)))])"
proof -
  have l3: "attempt_loop call 3 3 = (Inl (Exn PlainException ''All 3 attempts failed''), [])"
    by (simp add: attempt_loop_exhausted str_nat_3)
  have l2: "attempt_loop call 3 2 =
      (Inl (Exn PlainException ''All 3 attempts failed''),
       [InvokeModel 2, Print (error_msg 2 (try_attempt (call 2)))])"
    using attempt_loop_failed [of 2 3 call] assms(3) l3 by (simp add: eval_nat_numeral)
  have l1: "attempt_loop call 3 1 =
      (Inl (Exn PlainException ''All 3 attempts failed''),
       [InvokeModel 1, Print (error_msg 1 (try_attempt (call 1))), Sleep 2,
        InvokeModel 2, Print (error_msg 2 (try_attempt (call 2)))])"
    using attempt_loop_failed [of 1 3 call] assms(2) l2 by (simp add: eval_nat_numeral)
  show ?thesis
    using attempt_loop_failed [of 0 3 call] assms(1) l1 by simp
qed

lemma third_attempt_returns:
  assumes "attempt_fails (call 0)" "attempt_fails (call 1)" "try_attempt (call 2) = Returned v"
  shows "attempt_loop call 3 0 =
           (Inr v,
            [InvokeModel 0, Print (error_msg 0 (try_attempt (call 0))), Sleep 1,
             InvokeModel 1, Print (error_msg 1 (try_attempt (call 1))), Sleep 2,
             InvokeModel 2])"
proof -
  have l2: "attempt_loop call 3 2 = (Inr v, [InvokeModel 2])"
    using assms(3) by (simp add: attempt_loop_returned)
  have l1: "attempt_loop call 3 1 =
      (Inr v, [InvokeModel 1, Print (error_msg 1 (try_attempt (call 1))), Sleep 2,
               InvokeModel 2])"
    using attempt_loop_failed [of 1 3 call] assms(2) l2 by (simp add: eval_nat_numeral)
  show ?thesis
    using attempt_loop_failed [of 0 3 call] assms(1) l1 by simp
qed

lemma second_attempt_returns:
  assumes "attempt_fails (call 0)" "try_attempt (call 1) = Returned v"
  shows "attempt_loop call 3 0 =
           (Inr v,
            [InvokeModel 0, Print (error_msg 0 (try_attempt (call 0))), Sleep 1,
             InvokeModel 1])"
proof -
  have l1: "attempt_loop call 3 1 = (Inr v, [InvokeModel 1])"
    using assms(2) by (simp add: attempt_loop_returned)
  show ?thesis
    using attempt_loop_failed [of 0 3 call] assms(1) l1 by simp
qed

text \<open>
  C1. With \<open>max_retries = 3\<close> and a client that exists or can be constructed,
  \<open>analyze_with_bedrock\<close> calls the model at most three times. If all three attempts
  fail it raises \<open>Exception("All 3 attempts failed")\<close> after exactly the attempts 0, 1, 2,
  having slept 1 second after the first failure and 2 seconds after the second, and not
  after the third. If an attempt returns a text, that text is returned at once: the
  events end with that attempt, and the sleeps taken are those after the failures
  before it.
\<close>

theorem analyze_with_bedrock_retries:
  assumes retries: "max_retries self = 3"
    and client: "client_set self \<or> new_client env = None"
  shows "length (attempts_of (snd (analyze_with_bedrock env self))) \<le> 3 \<and>
    (attempt_fails (invoke_model env 0) \<and> attempt_fails (invoke_model env 1) \<and>
     attempt_fails (invoke_model env 2) \<longrightarrow>
       analyze_with_bedrock env self =
         (Inl (Exn PlainException ''All 3 attempts failed''),
          (if client_set self then [] else [CreateClient]) @
          [InvokeModel 0, Print (error_msg 0 (try_attempt (invoke_model env 0))), Sleep 1,
           InvokeModel 1, Print (error_msg 1 (try_attempt (invoke_model env 1))), Sleep 2,
           InvokeModel 2, Print (error_msg 2 (try_attempt (invoke_model env 2)))])) \<and>
    (\<forall>v. try_attempt (invoke_model env 0) = Returned v \<longrightarrow>
       analyze_with_bedrock env self =
         (Inr v, (if client_set self then [] else [CreateClient]) @ [InvokeModel 0])) \<and>
    (\<forall>v. attempt_fails (invoke_model env 0) \<and> try_attempt (invoke_model env 1) = Returned v \<longrightarrow>
       analyze_with_bedrock env self =
         (Inr v,
          (if client_set self then [] else [CreateClient]) @
          [InvokeModel 0, Print (error_msg 0 (try_attempt (invoke_model env 0))), Sleep 1,
           InvokeModel 1])) \<and>
    (\<forall>v. attempt_fails (invoke_model env 0) \<and> attempt_fails (invoke_model env 1) \<and>
         try_attempt (invoke_model env 2) = Returned v \<longrightarrow>
       analyze_with_bedrock env self =
         (Inr v,
          (if client_set self then [] else [CreateClient]) @
          [InvokeModel 0, Print (error_msg 0 (try_attempt (invoke_model env 0))), Sleep 1,
           InvokeModel 1, Print (error_msg 1 (try_attempt (invoke_model env 1))), Sleep 2,
           InvokeModel 2]))"
proof -
  let ?loop = "attempt_loop (invoke_model env) 3 0"
  have run: "analyze_with_bedrock env self =
      (fst ?loop, (if client_set self then [] else [CreateClient]) @ snd ?loop)"
    using retries client by (auto simp: analyze_with_bedrock_def Let_def)
  have bound: "length (attempts_of (snd (analyze_with_bedrock env self))) \<le> 3"
    using attempt_loop_bound [of "invoke_model env" 3 0]
    by (simp add: run attempts_of_append)
  have all_fail: "attempt_fails (invoke_model env 0) \<and> attempt_fails (invoke_model env 1) \<and>
     attempt_fails (invoke_model env 2) \<longrightarrow>
       analyze_with_bedrock env self =
         (Inl (Exn PlainException ''All 3 attempts failed''),
          (if client_set self then [] else [CreateClient]) @
          [InvokeModel 0, Print (error_msg 0 (try_attempt (invoke_model env 0))), Sleep 1,
           InvokeModel 1, Print (error_msg 1 (try_attempt (invoke_model env 1))), Sleep 2,
           InvokeModel 2, Print (error_msg 2 (try_attempt (invoke_model env 2)))])"
    by (simp add: run three_attempts_all_fail)
  have first: "\<forall>v. try_attempt (invoke_model env 0) = Returned v \<longrightarrow>
       analyze_with_bedrock env self =
         (Inr v, (if client_set self then [] else [CreateClient]) @ [InvokeModel 0])"
    by (simp add: run attempt_loop_returned)
  have second: "\<forall>v. attempt_fails (invoke_model env 0) \<and>
         try_attempt (invoke_model env 1) = Returned v \<longrightarrow>
       analyze_with_bedrock env self =
         (Inr v,
          (if client_set self then [] else [CreateClient]) @
          [InvokeModel 0, Print (error_msg 0 (try_attempt (invoke_model env 0))), Sleep 1,
           InvokeModel 1])"
    by (simp add: run second_attempt_returns)
  have third: "\<forall>v. attempt_fails (invoke_model env 0) \<and> attempt_fails (invoke_model env 1) \<and>
         try_attempt (invoke_model env 2) = Returned v \<longrightarrow>
       analyze_with_bedrock env self =
         (Inr v,
          (if client_set self then [] else [CreateClient]) @
          [InvokeModel 0, Print (error_msg 0 (try_attempt (invoke_model env 0))), Sleep 1,
           InvokeModel 1, Print (error_msg 1 (try_attempt (invoke_model env 1))), Sleep 2,
           InvokeModel 2])"
    by (simp add: run third_attempt_returns)
  from bound all_fail first second third show ?thesis by blast
qed

theorem analyze_with_bedrock_retries_witness:
  "max_retries llm_client_init = 3 \<and> new_client env_throttled = None \<and>
   attempt_fails (invoke_model env_throttled 0) \<and>
   attempt_fails (invoke_model env_throttled 1) \<and>
   attempt_fails (invoke_model env_throttled 2) \<and>
   analyze_with_bedrock env_throttled llm_client_init =
     (Inl (Exn PlainException ''All 3 attempts failed''),
      [CreateClient,
       InvokeModel 0,
       Print ''Bedrock error (attempt 1): ThrottlingException - Too many requests'',
       Sleep 1,
       InvokeModel 1,
       Print ''Bedrock error (attempt 2): ThrottlingException - Too many requests'',
       Sleep 2,
       InvokeModel 2,
       Print ''Bedrock error (attempt 3): ThrottlingException - Too many requests'']) \<and>
   new_client env_third_time = None \<and>
   attempt_fails (invoke_model env_third_time 0) \<and>
   attempt_fails (invoke_model env_third_time 1) \<and>
   try_attempt (invoke_model env_third_time 2) = Returned (PStr ''Plan'') \<and>
   analyze_with_bedrock env_third_time llm_client_init =
     (Inr (PStr ''Plan''),
      [CreateClient,
       InvokeModel 0,
       Print ''Bedrock error (attempt 1): ThrottlingException - Too many requests'',
       Sleep 1,
       InvokeModel 1,
       Print (''Bedrock connection failed (attempt 2): '' @ quoted ''content''),
       Sleep 2,
       InvokeModel 2])"
proof -
  have r: "max_retries llm_client_init = 3" and c: "\<not> client_set llm_client_init"
    by (simp_all add: llm_client_init_def)
  have n1: "new_client env_throttled = None" and n2: "new_client env_third_time = None"
    by (simp_all add: env_throttled_def env_third_time_def)
  have t: "try_attempt (invoke_model env_throttled 0) =
             BedrockError ''ThrottlingException'' ''Too many requests''"
      "try_attempt (invoke_model env_throttled 1) =
             BedrockError ''ThrottlingException'' ''Too many requests''"
      "try_attempt (invoke_model env_throttled 2) =
             BedrockError ''ThrottlingException'' ''Too many requests''"
    by (simp_all add: env_throttled_def try_attempt_def)
  have u: "try_attempt (invoke_model env_third_time 0) =
             BedrockError ''ThrottlingException'' ''Too many requests''"
      "try_attempt (invoke_model env_third_time 1) = ConnectionFailed (quoted ''content'')"
      "try_attempt (invoke_model env_third_time 2) = Returned (PStr ''Plan'')"
    by (simp_all add: env_third_time_def try_attempt_def then_exn_def extract_text_def
          py_index_key_def py_index_zero_def)
  have f1: "attempt_fails (invoke_model env_throttled 0)"
      "attempt_fails (invoke_model env_throttled 1)"
      "attempt_fails (invoke_model env_throttled 2)"
    using t by (simp_all add: attempt_fails_def)
  have f2: "attempt_fails (invoke_model env_third_time 0)"
      "attempt_fails (invoke_model env_third_time 1)"
    using u by (simp_all add: attempt_fails_def)
  have a: "analyze_with_bedrock env_throttled llm_client_init =
     (Inl (Exn PlainException ''All 3 attempts failed''),
      [CreateClient,
       InvokeModel 0,
       Print ''Bedrock error (attempt 1): ThrottlingException - Too many requests'',
       Sleep 1,
       InvokeModel 1,
       Print ''Bedrock error (attempt 2): ThrottlingException - Too many requests'',
       Sleep 2,
       InvokeModel 2,
       Print ''Bedrock error (attempt 3): ThrottlingException - Too many requests''])"
    using analyze_with_bedrock_retries [of llm_client_init env_throttled] r c n1 f1 t
    by (simp add: error_msg_def str_nat.simps digit_char_def)
  have b: "analyze_with_bedrock env_third_time llm_client_init =
     (Inr (PStr ''Plan''),
      [CreateClient,
       InvokeModel 0,
       Print ''Bedrock error (attempt 1): ThrottlingException - Too many requests'',
       Sleep 1,
       InvokeModel 1,
       Print (''Bedrock connection failed (attempt 2): '' @ quoted ''content''),
       Sleep 2,
       InvokeModel 2])"
    using analyze_with_bedrock_retries [of llm_client_init env_third_time] r c n2 f2 u
    by (simp add: error_msg_def str_nat.simps digit_char_def)
  from r n1 n2 f1 f2 u(3) a b show ?thesis by blast
qed

subsection \<open>The streamed fragments\<close>

lemma delta_text_Some:
  "delta_text chunk = Inr (Some t) \<Longrightarrow>
     truthy t \<and>
     (\<exists>kvs d. chunk = PDict kvs \<and> map_of kvs ''type'' = Some (PStr ''content_block_delta'') \<and>
        map_of kvs ''delta'' = Some (PDict d) \<and> map_of d ''text'' = Some t)"
  by (auto simp: delta_text_def then_exn_def py_index_key_def py_get_def dict_get_def
        split: pyval.splits option.splits if_splits)

lemma stream_loop_fragments:
  "t \<in> set (fst (stream_loop body)) \<Longrightarrow>
     truthy t \<and>
     (\<exists>kvs d. Inr (PDict kvs) \<in> set body \<and>
        map_of kvs ''type'' = Some (PStr ''content_block_delta'') \<and>
        map_of kvs ''delta'' = Some (PDict d) \<and> map_of d ''text'' = Some t)"
proof (induction body)
  case Nil
  then show ?case by simp
next
  case (Cons event rest)
  show ?case
  proof (cases "then_exn event delta_text")
    case (Inl e)
    with Cons.prems show ?thesis by simp
  next
    case (Inr r)
    show ?thesis
    proof (cases r)
      case None
      with Inr Cons show ?thesis by auto
    next
      case (Some frag)
      from Inr Some obtain chunk where ev: "event = Inr chunk" and dt: "delta_text chunk = Inr (Some frag)"
        by (auto simp: then_exn_def split: sum.splits)
      from Cons.prems Inr Some have "t = frag \<or> t \<in> set (fst (stream_loop rest))" by simp
      then show ?thesis
      proof
        assume "t = frag"
        with delta_text_Some [OF dt] ev show ?thesis by auto
      next
        assume "t \<in> set (fst (stream_loop rest))"
        from Cons.IH [OF this] show ?thesis by auto
      qed
    qed
  qed
qed

lemma streaming_fragments_from_loop:
  "t \<in> set (fst (fst (analyze_with_bedrock_streaming env self))) \<Longrightarrow>
     \<exists>body. invoke_stream env = Inr body \<and> t \<in> set (fst (stream_loop body))"
  by (auto simp: analyze_with_bedrock_streaming_def open_stream_def
        split: if_splits option.splits sum.splits)

text \<open>
  C8. Every fragment that \<open>analyze_with_bedrock_streaming\<close> yields is a truthy value
  (so never the empty string) and is the \<open>text\<close> of the \<open>delta\<close> of an event of the
  provider's stream whose \<open>type\<close> is \<open>content_block_delta\<close>. An event of another type,
  and a content delta whose \<open>delta\<close> has no \<open>text\<close> or an empty one, yields nothing and
  the loop goes on with the next event.
\<close>

theorem streaming_yields_nonempty_text_deltas:
  "(\<forall>t \<in> set (fst (fst (analyze_with_bedrock_streaming env self))).
      truthy t \<and> t \<noteq> PStr [] \<and>
      (\<exists>body kvs d. invoke_stream env = Inr body \<and> Inr (PDict kvs) \<in> set body \<and>
         map_of kvs ''type'' = Some (PStr ''content_block_delta'') \<and>
         map_of kvs ''delta'' = Some (PDict d) \<and> map_of d ''text'' = Some t)) \<and>
   (\<forall>kvs ty rest. map_of kvs ''type'' = Some ty \<and> ty \<noteq> PStr ''content_block_delta'' \<longrightarrow>
      stream_loop (Inr (PDict kvs) # rest) = stream_loop rest) \<and>
   (\<forall>kvs d rest. map_of kvs ''type'' = Some (PStr ''content_block_delta'') \<and>
        map_of kvs ''delta'' = Some (PDict d) \<and> \<not> truthy (dict_get d ''text'' (PStr [])) \<longrightarrow>
      stream_loop (Inr (PDict kvs) # rest) = stream_loop rest)"
proof (intro conjI ballI allI impI)
  fix t assume t: "t \<in> set (fst (fst (analyze_with_bedrock_streaming env self)))"
  from streaming_fragments_from_loop [OF t] obtain body where
    body: "invoke_stream env = Inr body" "t \<in> set (fst (stream_loop body))" by blast
  from stream_loop_fragments [OF body(2)] show "truthy t" by blast
  then show "t \<noteq> PStr []" by auto
  from stream_loop_fragments [OF body(2)] body(1)
  show "\<exists>body kvs d. invoke_stream env = Inr body \<and> Inr (PDict kvs) \<in> set body \<and>
         map_of kvs ''type'' = Some (PStr ''content_block_delta'') \<and>
         map_of kvs ''delta'' = Some (PDict d) \<and> map_of d ''text'' = Some t"
    by blast
next
  fix kvs ty rest
  assume "map_of kvs ''type'' = Some ty \<and> ty \<noteq> PStr ''content_block_delta''"
  then show "stream_loop (Inr (PDict kvs) # rest) = stream_loop rest"
    by (simp add: then_exn_def delta_text_def py_index_key_def)
next
  fix kvs d rest
  assume "map_of kvs ''type'' = Some (PStr ''content_block_delta'') \<and>
        map_of kvs ''delta'' = Some (PDict d) \<and> \<not> truthy (dict_get d ''text'' (PStr []))"
  then show "stream_loop (Inr (PDict kvs) # rest) = stream_loop rest"
    by (simp add: then_exn_def delta_text_def py_index_key_def py_get_def)
qed

theorem streaming_yields_nonempty_text_deltas_witness:
  "fst (analyze_with_bedrock_streaming env_fragments llm_client_init) =
     ([PStr ''Root'', PStr '' cause'', PStr '': pod''], None) \<and>
   PStr '' cause'' \<in> set (fst (fst (analyze_with_bedrock_streaming env_fragments llm_client_init))) \<and>
   truthy (PStr '' cause'') \<and> PStr '' cause'' \<noteq> PStr [] \<and>
   map_of [(''type'', PStr ''message_start'')] ''type'' = Some (PStr ''message_start'') \<and>
   PStr ''message_start'' \<noteq> PStr ''content_block_delta'' \<and>
   stream_loop [Inr (PDict [(''type'', PStr ''message_start'')]), text_delta ''Root''] =
     stream_loop [text_delta ''Root'']"
proof -
  have run: "fst (analyze_with_bedrock_streaming env_fragments llm_client_init) =
     ([PStr ''Root'', PStr '' cause'', PStr '': pod''], None)"
    by (simp add: analyze_with_bedrock_streaming_def open_stream_def env_fragments_def
          llm_client_init_def text_delta_def then_exn_def delta_text_def py_index_key_def
          py_get_def dict_get_def)
  then have mem:
    "PStr '' cause'' \<in> set (fst (fst (analyze_with_bedrock_streaming env_fragments llm_client_init)))"
    by simp
  have ty: "map_of [(''type'', PStr ''message_start'')] ''type'' = Some (PStr ''message_start'')"
    and ne: "PStr ''message_start'' \<noteq> PStr ''content_block_delta''"
    by simp_all
  note inst = streaming_yields_nonempty_text_deltas [of env_fragments llm_client_init]
  from inst mem have "truthy (PStr '' cause'') \<and> PStr '' cause'' \<noteq> PStr []" by blast
  moreover from inst ty ne
  have "stream_loop [Inr (PDict [(''type'', PStr ''message_start'')]), text_delta ''Root''] =
     stream_loop [text_delta ''Root'']" by blast
  ultimately show ?thesis using run mem ty ne by blast
qed

subsection \<open>The index reader\<close>

lemma success_result_keys:
  "success_result mst mjson data = Inr r \<Longrightarrow>
     \<exists>m n t k. r = PDict [(''mapping'', m), (''documents'', data), (''sample_size'', PInt n),
                         (''total_hits'', t), (''took_ms'', k), (''success'', PBool True)] \<and>
               (\<not> response_ok mst \<longrightarrow> m = PDict [])"
  by (auto simp: success_result_def then_exn_def split: sum.splits if_splits)




lemma failure_result_shape:
  "\<exists>kvs. PDict [(''success'', PBool False), (''error'', PStr (exn_str e))] = PDict kvs \<and>
     map_of kvs ''success'' = Some (PBool False) \<and>
     (\<exists>msg. map_of kvs ''error'' = Some (PStr msg)) \<and>
     list_all (\<lambda>k. map_of kvs k = None) success_fields"
  by (simp add: success_fields_def)

lemma success_result_shape:
  "success_result mst mjson data = Inr r \<Longrightarrow>
     \<exists>kvs. r = PDict kvs \<and> map_of kvs ''success'' = Some (PBool True) \<and>
       map_of kvs ''error'' = None \<and> list_all (\<lambda>k. map_of kvs k \<noteq> None) success_fields"
  by (drule success_result_keys) (auto simp: success_fields_def)

lemma get_index_data_shape:
  "\<exists>kvs. fst (get_index_data mapping_call search_call) = PDict kvs \<and>
     (map_of kvs ''success'' = Some (PBool True) \<and> map_of kvs ''error'' = None \<and>
        list_all (\<lambda>k. map_of kvs k \<noteq> None) success_fields \<or>
      map_of kvs ''success'' = Some (PBool False) \<and>
        (\<exists>msg. map_of kvs ''error'' = Some (PStr msg)) \<and>
        list_all (\<lambda>k. map_of kvs k = None) success_fields)"
proof (cases "fst (get_index_data_try mapping_call search_call)")
  case (Inl e)
  then have "fst (get_index_data mapping_call search_call) =
      PDict [(''success'', PBool False), (''error'', PStr (exn_str e))]"
    by (simp add: get_index_data_def)
  with failure_result_shape [of e] show ?thesis by auto
next
  case (Inr r)
  then have run: "fst (get_index_data mapping_call search_call) = r"
    by (simp add: get_index_data_def)
  from Inr obtain mst mjson data where "success_result mst mjson data = Inr r"
    by (auto simp: get_index_data_try_def then_exn_def
          split: http_outcome.splits if_splits sum.splits)
  from success_result_shape [OF this] run show ?thesis by auto
qed

text \<open>
  C7, as amended. \<open>get_index_data\<close> always returns a dictionary, never an exception.
  The dictionary either has \<open>success = True\<close>, all the success path fields and no
  \<open>error\<close>, or has \<open>success = False\<close>, an \<open>error\<close> message and none of the success
  path fields. It is the second, with the text of the exception as the message, when
  the mapping request or the search request raises, and when the search response has
  a status from 400 to 599.
\<close>

theorem get_index_data_returns_result:
  "(\<exists>kvs. fst (get_index_data mapping_call search_call) = PDict kvs \<and>
      (map_of kvs ''success'' = Some (PBool True) \<and> map_of kvs ''error'' = None \<and>
         list_all (\<lambda>k. map_of kvs k \<noteq> None) success_fields \<or>
       map_of kvs ''success'' = Some (PBool False) \<and>
         (\<exists>msg. map_of kvs ''error'' = Some (PStr msg)) \<and>
         list_all (\<lambda>k. map_of kvs k = None) success_fields)) \<and>
   (\<forall>e. mapping_call = HttpRaises e \<longrightarrow>
      fst (get_index_data mapping_call search_call) =
        PDict [(''success'', PBool False), (''error'', PStr (exn_str e))]) \<and>
   (\<forall>mst mjson merr e.
      mapping_call = HttpResponse mst mjson merr \<and> search_call = HttpRaises e \<longrightarrow>
      fst (get_index_data mapping_call search_call) =
        PDict [(''success'', PBool False), (''error'', PStr (exn_str e))]) \<and>
   (\<forall>mst mjson merr sst sjson serr.
      mapping_call = HttpResponse mst mjson merr \<and>
      search_call = HttpResponse sst sjson serr \<and> raises_for_status sst \<longrightarrow>
      fst (get_index_data mapping_call search_call) =
        PDict [(''success'', PBool False), (''error'', PStr (exn_str serr))])"
proof (intro conjI allI impI)
  show "\<exists>kvs. fst (get_index_data mapping_call search_call) = PDict kvs \<and>
      (map_of kvs ''success'' = Some (PBool True) \<and> map_of kvs ''error'' = None \<and>
         list_all (\<lambda>k. map_of kvs k \<noteq> None) success_fields \<or>
       map_of kvs ''success'' = Some (PBool False) \<and>
         (\<exists>msg. map_of kvs ''error'' = Some (PStr msg)) \<and>
         list_all (\<lambda>k. map_of kvs k = None) success_fields)"
    by (rule get_index_data_shape)
next
  fix e assume "mapping_call = HttpRaises e"
  then show "fst (get_index_data mapping_call search_call) =
        PDict [(''success'', PBool False), (''error'', PStr (exn_str e))]"
    by (simp add: get_index_data_def get_index_data_try_def)
next
  fix mst mjson merr e
  assume "mapping_call = HttpResponse mst mjson merr \<and> search_call = HttpRaises e"
  then show "fst (get_index_data mapping_call search_call) =
        PDict [(''success'', PBool False), (''error'', PStr (exn_str e))]"
    by (simp add: get_index_data_def get_index_data_try_def)
next
  fix mst mjson merr sst sjson serr
  assume "mapping_call = HttpResponse mst mjson merr \<and>
      search_call = HttpResponse sst sjson serr \<and> raises_for_status sst"
  then show "fst (get_index_data mapping_call search_call) =
        PDict [(''success'', PBool False), (''error'', PStr (exn_str serr))]"
    by (simp add: get_index_data_def get_index_data_try_def)
qed

theorem get_index_data_returns_result_witness:
  "mapping_found = HttpResponse 200 (Inr (PDict [(''app-logs'', PDict [])])) (http_error []) \<and>
   search_unavailable =
     HttpResponse 503 (Inl (Exn ValueError ''Expecting value: line 1 column 1 (char 0)''))
       (http_error ''503 Server Error: Service Unavailable'') \<and>
   raises_for_status 503 \<and>
   fst (get_index_data mapping_found search_unavailable) =
     PDict [(''success'', PBool False),
            (''error'', PStr ''503 Server Error: Service Unavailable'')] \<and>
   fst (get_index_data (HttpRaises (http_error ''Connection refused'')) search_found) =
     PDict [(''success'', PBool False), (''error'', PStr ''Connection refused'')]"
proof -
  have m: "mapping_found =
      HttpResponse 200 (Inr (PDict [(''app-logs'', PDict [])])) (http_error [])"
    by (simp add: mapping_found_def)
  have s: "search_unavailable =
     HttpResponse 503 (Inl (Exn ValueError ''Expecting value: line 1 column 1 (char 0)''))
       (http_error ''503 Server Error: Service Unavailable'')"
    by (simp add: search_unavailable_def)
  have r: "raises_for_status 503" by (simp add: raises_for_status_def)
  from get_index_data_returns_result [of mapping_found search_unavailable] m s r
  have a: "fst (get_index_data mapping_found search_unavailable) =
     PDict [(''success'', PBool False),
            (''error'', PStr ''503 Server Error: Service Unavailable'')]"
    by (simp add: http_error_def)
  from get_index_data_returns_result
         [of "HttpRaises (http_error ''Connection refused'')" search_found]
  have b: "fst (get_index_data (HttpRaises (http_error ''Connection refused'')) search_found) =
     PDict [(''success'', PBool False), (''error'', PStr ''Connection refused'')]"
    by (simp add: http_error_def)
  from m s r a b show ?thesis by blast
qed

text \<open>
  C7, as stated, fails on a search response with a status that is not 2xx and not an
  error code either: \<open>raise_for_status()\<close> lets status 300 pass, the body decodes, and
  the result has \<open>success = True\<close>.
\<close>

theorem non_2xx_search_counterexample:
  "\<not> is_2xx 300 \<and>
   entry_field
     (Inr (fst (get_index_data mapping_found
                  (HttpResponse 300 (Inr search_body) (http_error [])))))
     ''success'' = Some (PBool True)"
  by (simp add: is_2xx_def entry_field_def get_index_data_def get_index_data_try_def
        mapping_found_def raises_for_status_def response_ok_def then_exn_def
        success_result_def hits_of_def total_hits_of_def py_get_def dict_get_def py_len_def
        search_body_def)

subsection \<open>The blocking orchestrator\<close>

lemma attempt_loop_raises:
  "fst (attempt_loop call retries attempt) = Inl e \<Longrightarrow>
     e = Exn PlainException (''All '' @ str_nat retries @ '' attempts failed'')"
proof (induction "retries - attempt" arbitrary: attempt)
  case 0
  then have "\<not> attempt < retries" by simp
  with "0.prems" show ?case by (simp add: attempt_loop_exhausted)
next
  case (Suc n)
  then have lt: "attempt < retries" and n: "n = retries - Suc attempt" by simp_all
  show ?case
  proof (cases "attempt_fails (call attempt)")
    case True
    from Suc.prems have "fst (attempt_loop call retries (Suc attempt)) = Inl e"
      by (simp add: attempt_loop_failed [of attempt retries call, OF lt True])
    from Suc.hyps(1) [OF n this] show ?thesis .
  next
    case False
    then obtain v where "try_attempt (call attempt) = Returned v"
      by (auto simp: attempt_fails_def split: attempt_result.splits)
    with lt Suc.prems show ?thesis by (simp add: attempt_loop_returned)
  qed
qed

lemma analyze_raises_text:
  assumes sdk: "\<forall>e. new_client env = Some e \<longrightarrow> exn_str e \<noteq> []"
    and raised: "fst (analyze_with_bedrock env self) = Inl e"
  shows "exn_str e \<noteq> []"
proof (cases "\<not> client_set self \<and> new_client env \<noteq> None")
  case True
  then obtain e' where e': "new_client env = Some e'" by auto
  with True raised have "e = e'" by (simp add: analyze_with_bedrock_def)
  with sdk e' show ?thesis by simp
next
  case False
  then have "fst (analyze_with_bedrock env self) =
      fst (attempt_loop (invoke_model env) (max_retries self) 0)"
    by (auto simp: analyze_with_bedrock_def Let_def)
  with raised attempt_loop_raises [of "invoke_model env" "max_retries self" 0 e]
  show ?thesis by simp
qed

lemma map_of_dict_set: "map_of (dict_set d k v) = (map_of d)(k \<mapsto> v)"
  by (induction d) (auto simp: fun_eq_iff)

lemma generate_plan_raised:
  assumes "create_prompt render index_name index_data analysis_options = Inr p"
    and "fst (analyze_with_bedrock env self) = Inl e"
  shows "generate_plan render clock env self index_name index_data analysis_options =
           ((PStr [], dict_set (initial_metrics clock) ''error'' (PStr (exn_str e))),
            snd (analyze_with_bedrock env self))"
  using assms by (simp add: generate_plan_def)

lemma generate_plan_empty:
  assumes "create_prompt render index_name index_data analysis_options = Inr p"
    and "fst (analyze_with_bedrock env self) = Inr v" and "\<not> truthy v"
  shows "generate_plan render clock env self index_name index_data analysis_options =
           ((PStr [],
             dict_set (initial_metrics clock) ''error'' (PStr ''Empty response from LLM'')),
            snd (analyze_with_bedrock env self))"
  using assms by (simp add: generate_plan_def)

lemma generate_plan_returned:
  assumes "create_prompt render index_name index_data analysis_options = Inr p"
    and "fst (analyze_with_bedrock env self) = Inr v" and "truthy v" and "py_len v = Inr n"
  shows "generate_plan render clock env self index_name index_data analysis_options =
           ((v, dict_update (initial_metrics clock)
                  [(''success'', PBool True),
                   (''end_time'', PFloat (clock 1)),
                   (''duration_seconds'', PFloat (clock 2 - clock 0)),
                   (''plan_length'', PInt (int n))]),
            snd (analyze_with_bedrock env self))"
  using assms by (simp add: generate_plan_def)

lemma failure_metrics:
  "map_of (dict_set (initial_metrics clock) ''error'' (PStr m)) =
     [''start_time'' \<mapsto> PFloat (clock 0), ''success'' \<mapsto> PBool False, ''error'' \<mapsto> PStr m]"
  by (simp add: initial_metrics_def fun_eq_iff)

lemma success_metrics:
  "map_of (dict_update (initial_metrics clock)
             [(''success'', PBool True), (''end_time'', t1), (''duration_seconds'', d),
              (''plan_length'', n)]) =
     [''start_time'' \<mapsto> PFloat (clock 0), ''success'' \<mapsto> PBool True, ''error'' \<mapsto> PNone,
      ''end_time'' \<mapsto> t1, ''duration_seconds'' \<mapsto> d, ''plan_length'' \<mapsto> n]"
  by (simp add: initial_metrics_def fun_eq_iff)

text \<open>
  C4. Take a call of \<open>generate_plan\<close> in which the prompt is built, a truthy reply of
  the model has a length (as a text has), and an exception of the SDK constructor has a
  text. Then the call returns the empty plan with \<open>success = False\<close> and a non-empty
  \<open>error\<close> exactly when \<open>analyze_with_bedrock\<close> raises or returns an empty reply. When
  it raises, \<open>error\<close> is the text of the exception; when the reply is empty, \<open>error\<close> is
  \<open>"Empty response from LLM"\<close> and the model client is not called again. When the reply
  is not empty, it is returned as the plan, with \<open>success = True\<close> and \<open>plan_length\<close>
  its length.
\<close>

theorem generate_plan_outcomes:
  assumes prompt: "create_prompt render index_name index_data analysis_options = Inr p"
    and sized: "\<forall>v. fst (analyze_with_bedrock env self) = Inr v \<and> truthy v \<longrightarrow> is_ok (py_len v)"
    and sdk: "\<forall>e. new_client env = Some e \<longrightarrow> exn_str e \<noteq> []"
    and run: "generate_plan render clock env self index_name index_data analysis_options =
                ((plan, metrics), evs)"
  shows "((plan = PStr [] \<and> map_of metrics ''success'' = Some (PBool False) \<and>
           (\<exists>m. map_of metrics ''error'' = Some (PStr m) \<and> m \<noteq> [])) \<longleftrightarrow>
          ((\<exists>e. fst (analyze_with_bedrock env self) = Inl e) \<or>
           (\<exists>v. fst (analyze_with_bedrock env self) = Inr v \<and> \<not> truthy v))) \<and>
         (\<forall>e. fst (analyze_with_bedrock env self) = Inl e \<longrightarrow>
            map_of metrics ''error'' = Some (PStr (exn_str e))) \<and>
         (\<forall>v. fst (analyze_with_bedrock env self) = Inr v \<and> \<not> truthy v \<longrightarrow>
            map_of metrics ''error'' = Some (PStr ''Empty response from LLM'') \<and>
            evs = snd (analyze_with_bedrock env self)) \<and>
         (\<forall>v. fst (analyze_with_bedrock env self) = Inr v \<and> truthy v \<longrightarrow>
            plan = v \<and> map_of metrics ''success'' = Some (PBool True) \<and>
            (\<exists>n. py_len v = Inr n \<and> map_of metrics ''plan_length'' = Some (PInt (int n))))"
proof (cases "fst (analyze_with_bedrock env self)")
  case (Inl e)
  from generate_plan_raised [OF prompt Inl, of clock] run
  have "plan = PStr []" "metrics = dict_set (initial_metrics clock) ''error'' (PStr (exn_str e))"
    by simp_all
  moreover have "exn_str e \<noteq> []" using analyze_raises_text [OF sdk Inl] .
  ultimately show ?thesis using Inl by (simp add: failure_metrics)
next
  case (Inr v)
  show ?thesis
  proof (cases "truthy v")
    case False
    from generate_plan_empty [OF prompt Inr False, of clock] run
    have "plan = PStr []"
      "metrics = dict_set (initial_metrics clock) ''error'' (PStr ''Empty response from LLM'')"
      "evs = snd (analyze_with_bedrock env self)"
      by simp_all
    then show ?thesis using Inr False by (simp add: failure_metrics)
  next
    case True
    from sized Inr True obtain n where n: "py_len v = Inr n"
      by (auto simp: is_ok_def split: sum.splits)
    from generate_plan_returned [OF prompt Inr True n, of clock] run
    have pl: "plan = v"
      and me: "metrics = dict_update (initial_metrics clock)
                  [(''success'', PBool True),
                   (''end_time'', PFloat (clock 1)),
                   (''duration_seconds'', PFloat (clock 2 - clock 0)),
                   (''plan_length'', PInt (int n))]"
      by simp_all
    have "map_of metrics =
       [''start_time'' \<mapsto> PFloat (clock 0), ''success'' \<mapsto> PBool True, ''error'' \<mapsto> PNone,
        ''end_time'' \<mapsto> PFloat (clock 1),
        ''duration_seconds'' \<mapsto> PFloat (clock 2 - clock 0),
        ''plan_length'' \<mapsto> PInt (int n)]"
      unfolding me by (rule success_metrics)
    then show ?thesis using Inr True n pl by auto
  qed
qed

lemma prompt_of_fetched_index:
  "\<exists>p. create_prompt witness_render ''app-logs'' fetched_index default_options = Inr p"
  by (simp add: create_prompt_def then_exn_def get_hits_def sample_docs_of_def py_get_def
        dict_get_def py_slice_items_def py_len_def format_comma_def fetched_index_def
        search_body_def default_options_def normalize_hit_def normalize_source_dict)

lemma analyze_throttled:
  "fst (analyze_with_bedrock env_throttled llm_client_init) =
     Inl (Exn PlainException ''All 3 attempts failed'')"
proof -
  have "attempt_fails (invoke_model env_throttled k)" for k
    by (simp add: env_throttled_def attempt_fails_def try_attempt_def)
  then have "fst (attempt_loop (invoke_model env_throttled) 3 0) =
      Inl (Exn PlainException ''All 3 attempts failed'')"
    by (simp add: three_attempts_all_fail)
  then show ?thesis
    by (simp add: analyze_with_bedrock_def llm_client_init_def env_throttled_def Let_def)
qed

lemma analyze_third_time:
  "fst (analyze_with_bedrock env_third_time llm_client_init) = Inr (PStr ''Plan'')"
proof -
  have "attempt_fails (invoke_model env_third_time 0)"
    "attempt_fails (invoke_model env_third_time 1)"
    "try_attempt (invoke_model env_third_time 2) = Returned (PStr ''Plan'')"
    by (simp_all add: env_third_time_def attempt_fails_def try_attempt_def then_exn_def
          extract_text_def py_index_key_def py_index_zero_def)
  then have "fst (attempt_loop (invoke_model env_third_time) 3 0) = Inr (PStr ''Plan'')"
    by (simp add: third_attempt_returns)
  then show ?thesis
    by (simp add: analyze_with_bedrock_def llm_client_init_def env_third_time_def Let_def)
qed

lemma analyze_empty_reply:
  "fst (analyze_with_bedrock env_empty_reply llm_client_init) = Inr (PStr [])"
proof -
  have "try_attempt (invoke_model env_empty_reply 0) = Returned (PStr [])"
    by (simp add: env_empty_reply_def try_attempt_def then_exn_def extract_text_def
          py_index_key_def py_index_zero_def)
  then have "fst (attempt_loop (invoke_model env_empty_reply) 3 0) = Inr (PStr [])"
    by (simp add: attempt_loop_returned)
  then show ?thesis
    by (simp add: analyze_with_bedrock_def llm_client_init_def env_empty_reply_def Let_def)
qed

theorem generate_plan_outcomes_witness:
  "is_ok (create_prompt witness_render ''app-logs'' fetched_index default_options) \<and>
   new_client env_third_time = None \<and>
   fst (analyze_with_bedrock env_third_time llm_client_init) = Inr (PStr ''Plan'') \<and>
   truthy (PStr ''Plan'') \<and> is_ok (py_len (PStr ''Plan'')) \<and>
   fst (fst (generate_plan witness_render clock_half_seconds env_third_time llm_client_init
               ''app-logs'' fetched_index default_options)) = PStr ''Plan'' \<and>
   map_of (snd (fst (generate_plan witness_render clock_half_seconds env_third_time
               llm_client_init ''app-logs'' fetched_index default_options))) ''success''
     = Some (PBool True) \<and>
   map_of (snd (fst (generate_plan witness_render clock_half_seconds env_third_time
               llm_client_init ''app-logs'' fetched_index default_options))) ''plan_length''
     = Some (PInt 4) \<and>
   new_client env_throttled = None \<and>
   fst (analyze_with_bedrock env_throttled llm_client_init) =
     Inl (Exn PlainException ''All 3 attempts failed'') \<and>
   fst (fst (generate_plan witness_render clock_half_seconds env_throttled llm_client_init
               ''app-logs'' fetched_index default_options)) = PStr [] \<and>
   map_of (snd (fst (generate_plan witness_render clock_half_seconds env_throttled
               llm_client_init ''app-logs'' fetched_index default_options))) ''error''
     = Some (PStr ''All 3 attempts failed'') \<and>
   new_client env_empty_reply = None \<and>
   fst (analyze_with_bedrock env_empty_reply llm_client_init) = Inr (PStr []) \<and>
   map_of (snd (fst (generate_plan witness_render clock_half_seconds env_empty_reply
               llm_client_init ''app-logs'' fetched_index default_options))) ''error''
     = Some (PStr ''Empty response from LLM'')"
proof -
  from prompt_of_fetched_index obtain p where
    p: "create_prompt witness_render ''app-logs'' fetched_index default_options = Inr p" ..
  then have ok: "is_ok (create_prompt witness_render ''app-logs'' fetched_index default_options)"
    by (simp add: is_ok_def)
  have n: "new_client env_third_time = None" "new_client env_throttled = None"
      "new_client env_empty_reply = None"
    by (simp_all add: env_third_time_def env_throttled_def env_empty_reply_def)
  have len: "py_len (PStr ''Plan'') = Inr 4" by (simp add: py_len_def)
  let ?G3 = "generate_plan witness_render clock_half_seconds env_third_time llm_client_init
               ''app-logs'' fetched_index default_options"
  let ?Gt = "generate_plan witness_render clock_half_seconds env_throttled llm_client_init
               ''app-logs'' fetched_index default_options"
  let ?Ge = "generate_plan witness_render clock_half_seconds env_empty_reply llm_client_init
               ''app-logs'' fetched_index default_options"
  have s3: "\<forall>v. fst (analyze_with_bedrock env_third_time llm_client_init) = Inr v \<and> truthy v
              \<longrightarrow> is_ok (py_len v)"
    using len by (simp add: analyze_third_time is_ok_def)
  have st: "\<forall>v. fst (analyze_with_bedrock env_throttled llm_client_init) = Inr v \<and> truthy v
              \<longrightarrow> is_ok (py_len v)"
    by (simp add: analyze_throttled)
  have se: "\<forall>v. fst (analyze_with_bedrock env_empty_reply llm_client_init) = Inr v \<and> truthy v
              \<longrightarrow> is_ok (py_len v)"
    by (simp add: analyze_empty_reply)
  have k3: "\<forall>e. new_client env_third_time = Some e \<longrightarrow> exn_str e \<noteq> []"
    and kt: "\<forall>e. new_client env_throttled = Some e \<longrightarrow> exn_str e \<noteq> []"
    and ke: "\<forall>e. new_client env_empty_reply = Some e \<longrightarrow> exn_str e \<noteq> []"
    using n by simp_all
  have r3: "?G3 = ((fst (fst ?G3), snd (fst ?G3)), snd ?G3)"
    and rt: "?Gt = ((fst (fst ?Gt), snd (fst ?Gt)), snd ?Gt)"
    and re: "?Ge = ((fst (fst ?Ge), snd (fst ?Ge)), snd ?Ge)"
    by simp_all
  from generate_plan_outcomes [OF p s3 k3 r3] analyze_third_time len
  have a: "fst (fst ?G3) = PStr ''Plan''"
      "map_of (snd (fst ?G3)) ''success'' = Some (PBool True)"
      "map_of (snd (fst ?G3)) ''plan_length'' = Some (PInt 4)"
    by simp_all
  from generate_plan_outcomes [OF p st kt rt] analyze_throttled
  have b: "fst (fst ?Gt) = PStr []"
      "map_of (snd (fst ?Gt)) ''error'' = Some (PStr ''All 3 attempts failed'')"
    by simp_all
  from generate_plan_outcomes [OF p se ke re] analyze_empty_reply
  have c: "map_of (snd (fst ?Ge)) ''error'' = Some (PStr ''Empty response from LLM'')"
    by simp
  from ok n analyze_third_time analyze_throttled analyze_empty_reply len a b c
  show ?thesis by (simp add: is_ok_def)
qed

text \<open>
  C5, as amended. The metrics of every call of \<open>generate_plan\<close> carry \<open>start_time\<close>
  and \<open>success\<close>. When \<open>success\<close> is true they also carry \<open>end_time\<close>,
  \<open>duration_seconds\<close> and \<open>plan_length\<close>, and \<open>error\<close> is \<open>None\<close>. When \<open>success\<close> is
  false they carry an \<open>error\<close> text and no \<open>end_time\<close>, \<open>duration_seconds\<close> or
  \<open>plan_length\<close>. A \<open>duration_seconds\<close> that is present is the third clock reading
  minus the first, and is not negative when the clock did not run backwards between
  them.
\<close>

theorem metrics_fields:
  assumes run: "generate_plan render clock env self index_name index_data analysis_options =
                  ((plan, metrics), evs)"
  shows "map_of metrics ''start_time'' = Some (PFloat (clock 0)) \<and>
         (map_of metrics ''success'' = Some (PBool True) \<and>
            map_of metrics ''error'' = Some PNone \<and>
            map_of metrics ''end_time'' = Some (PFloat (clock 1)) \<and>
            map_of metrics ''duration_seconds'' = Some (PFloat (clock 2 - clock 0)) \<and>
            (\<exists>n. map_of metrics ''plan_length'' = Some (PInt (int n)))
          \<or>
          map_of metrics ''success'' = Some (PBool False) \<and>
            (\<exists>m. map_of metrics ''error'' = Some (PStr m)) \<and>
            map_of metrics ''end_time'' = None \<and>
            map_of metrics ''duration_seconds'' = None \<and>
            map_of metrics ''plan_length'' = None) \<and>
         (clock 0 \<le> clock 2 \<longrightarrow>
            (\<forall>d. map_of metrics ''duration_seconds'' = Some (PFloat d) \<longrightarrow> 0 \<le> d))"
proof -
  have "(\<exists>m. metrics = dict_set (initial_metrics clock) ''error'' (PStr m)) \<or>
        (\<exists>n. metrics = dict_update (initial_metrics clock)
                  [(''success'', PBool True),
                   (''end_time'', PFloat (clock 1)),
                   (''duration_seconds'', PFloat (clock 2 - clock 0)),
                   (''plan_length'', PInt (int n))])"
    using run by (auto simp: generate_plan_def split: sum.splits if_splits)
  then show ?thesis
  proof
    assume "\<exists>m. metrics = dict_set (initial_metrics clock) ''error'' (PStr m)"
    then obtain m where "map_of metrics =
        [''start_time'' \<mapsto> PFloat (clock 0), ''success'' \<mapsto> PBool False, ''error'' \<mapsto> PStr m]"
      using failure_metrics by blast
    then show ?thesis by simp
  next
    assume "\<exists>n. metrics = dict_update (initial_metrics clock)
                  [(''success'', PBool True),
                   (''end_time'', PFloat (clock 1)),
                   (''duration_seconds'', PFloat (clock 2 - clock 0)),
                   (''plan_length'', PInt (int n))]"
    then obtain n where "map_of metrics =
       [''start_time'' \<mapsto> PFloat (clock 0), ''success'' \<mapsto> PBool True, ''error'' \<mapsto> PNone,
        ''end_time'' \<mapsto> PFloat (clock 1),
        ''duration_seconds'' \<mapsto> PFloat (clock 2 - clock 0),
        ''plan_length'' \<mapsto> PInt (int n)]"
      using success_metrics by blast
    then show ?thesis by auto
  qed
qed

theorem metrics_fields_witness:
  "clock_half_seconds 0 \<le> clock_half_seconds 2 \<and>
   map_of (snd (fst (generate_plan witness_render clock_half_seconds env_third_time
               llm_client_init ''app-logs'' fetched_index default_options))) ''success''
     = Some (PBool True) \<and>
   map_of (snd (fst (generate_plan witness_render clock_half_seconds env_third_time
               llm_client_init ''app-logs'' fetched_index default_options))) ''end_time''
     = Some (PFloat (1700000000 + 1 / 2)) \<and>
   map_of (snd (fst (generate_plan witness_render clock_half_seconds env_third_time
               llm_client_init ''app-logs'' fetched_index default_options))) ''duration_seconds''
     = Some (PFloat 1) \<and>
   map_of (snd (fst (generate_plan witness_render clock_half_seconds env_throttled
               llm_client_init ''app-logs'' fetched_index default_options))) ''success''
     = Some (PBool False) \<and>
   map_of (snd (fst (generate_plan witness_render clock_half_seconds env_throttled
               llm_client_init ''app-logs'' fetched_index default_options))) ''plan_length''
     = None"
proof -
  let ?G3 = "generate_plan witness_render clock_half_seconds env_third_time llm_client_init
               ''app-logs'' fetched_index default_options"
  let ?Gt = "generate_plan witness_render clock_half_seconds env_throttled llm_client_init
               ''app-logs'' fetched_index default_options"
  from prompt_of_fetched_index obtain p where
    p: "create_prompt witness_render ''app-logs'' fetched_index default_options = Inr p" ..
  have mono: "clock_half_seconds 0 \<le> clock_half_seconds 2"
    by (simp add: clock_half_seconds_def)
  have r3: "?G3 = ((fst (fst ?G3), snd (fst ?G3)), snd ?G3)"
    and rt: "?Gt = ((fst (fst ?Gt), snd (fst ?Gt)), snd ?Gt)"
    by simp_all
  have "fst (fst ?G3) = PStr ''Plan''"
    using generate_plan_returned [OF p analyze_third_time, of 4 clock_half_seconds]
    by (simp add: py_len_def)
  then have "snd (fst ?G3) \<noteq> dict_set (initial_metrics clock_half_seconds) ''error'' (PStr m)" for m
    using generate_plan_returned [OF p analyze_third_time, of 4 clock_half_seconds]
    by (simp add: py_len_def initial_metrics_def)
  then have s3: "map_of (snd (fst ?G3)) ''success'' \<noteq> Some (PBool False)"
    using generate_plan_returned [OF p analyze_third_time, of 4 clock_half_seconds]
    by (simp add: py_len_def initial_metrics_def)
  have st: "map_of (snd (fst ?Gt)) ''success'' \<noteq> Some (PBool True)"
    using generate_plan_raised [OF p analyze_throttled, of clock_half_seconds]
    by (simp add: initial_metrics_def)
  from metrics_fields [OF r3] s3
  have a: "map_of (snd (fst ?G3)) ''success'' = Some (PBool True)"
      "map_of (snd (fst ?G3)) ''end_time'' = Some (PFloat (1700000000 + 1 / 2))"
      "map_of (snd (fst ?G3)) ''duration_seconds'' = Some (PFloat 1)"
    by (auto simp: clock_half_seconds_def)
  from metrics_fields [OF rt] st
  have b: "map_of (snd (fst ?Gt)) ''success'' = Some (PBool False)"
      "map_of (snd (fst ?Gt)) ''plan_length'' = None"
    by auto
  from mono a b show ?thesis by simp
qed

text \<open>
  C5, as stated, fails on a call in which all three attempts of the model client
  fail: the metrics returned have no \<open>end_time\<close> and no \<open>duration_seconds\<close>.
\<close>

theorem failed_metrics_counterexample:
  "fst (analyze_with_bedrock env_throttled llm_client_init) =
     Inl (Exn PlainException ''All 3 attempts failed'') \<and>
   map_of (snd (fst (generate_plan witness_render clock_half_seconds env_throttled
               llm_client_init ''app-logs'' fetched_index default_options))) ''end_time''
     = None \<and>
   map_of (snd (fst (generate_plan witness_render clock_half_seconds env_throttled
               llm_client_init ''app-logs'' fetched_index default_options))) ''duration_seconds''
     = None"
proof -
  from prompt_of_fetched_index obtain p where
    p: "create_prompt witness_render ''app-logs'' fetched_index default_options = Inr p" ..
  show ?thesis
    using generate_plan_raised [OF p analyze_throttled, of clock_half_seconds] analyze_throttled
    by (simp add: initial_metrics_def)
qed

subsection \<open>The streaming endpoint\<close>

text \<open>
  C9. When the fetch fails, that is when \<open>get_index_data\<close> returns a result with
  \<open>success = False\<close>, the result carries an error message and \<open>plan_generator_stream\<close>
  yields exactly one event, the error event with \<open>Failed to fetch index data: \<close> and
  that message. It then ends: it yields nothing more, raises nothing, and makes no call
  of the model client.
\<close>

theorem failed_fetch_yields_one_error_event:
  assumes failed: "entry_field (Inr (fst (get_index_data mapping_call search_call))) ''success''
                     = Some (PBool False)"
  shows "\<exists>msg. entry_field (Inr (fst (get_index_data mapping_call search_call))) ''error''
                  = Some (PStr msg) \<and>
           plan_generator_stream render mapping_call search_call env index_name analysis_options =
             ([error_event (''Failed to fetch index data: '' @ msg)],
              snd (get_index_data mapping_call search_call),
              [])"
proof -
  from get_index_data_shape [of mapping_call search_call] failed obtain kvs msg where
    r: "fst (get_index_data mapping_call search_call) = PDict kvs"
      "map_of kvs ''success'' = Some (PBool False)" "map_of kvs ''error'' = Some (PStr msg)"
    by (auto simp: entry_field_def)
  then have "plan_generator_stream render mapping_call search_call env index_name
               analysis_options =
             ([error_event (''Failed to fetch index data: '' @ msg)],
              snd (get_index_data mapping_call search_call),
              [])"
    by (simp add: plan_generator_stream_def Let_def py_get_def dict_get_def py_str_def)
  with r show ?thesis by (simp add: entry_field_def)
qed

theorem failed_fetch_yields_one_error_event_witness:
  "entry_field (Inr (fst (get_index_data mapping_found search_unavailable))) ''success''
     = Some (PBool False) \<and>
   entry_field (Inr (fst (get_index_data mapping_found search_unavailable))) ''error''
     = Some (PStr ''503 Server Error: Service Unavailable'') \<and>
   plan_generator_stream witness_render mapping_found search_unavailable env_fragments
       ''app-logs'' default_options =
     ([''data: {'' @ [CHR 0x22] @ ''error'' @ [CHR 0x22] @ '': '' @ [CHR 0x22] @
       ''Failed to fetch index data: 503 Server Error: Service Unavailable'' @
       [CHR 0x22] @ ''}'' @ [CHR 0x0A, CHR 0x0A]],
      [GetMapping, PostSearch],
      [])"
proof -
  have res: "get_index_data mapping_found search_unavailable =
      (PDict [(''success'', PBool False),
              (''error'', PStr ''503 Server Error: Service Unavailable'')],
       [GetMapping, PostSearch])"
    by (simp add: get_index_data_def get_index_data_try_def mapping_found_def
          search_unavailable_def raises_for_status_def http_error_def)
  then have f: "entry_field (Inr (fst (get_index_data mapping_found search_unavailable)))
      ''success'' = Some (PBool False)"
    and e: "entry_field (Inr (fst (get_index_data mapping_found search_unavailable)))
      ''error'' = Some (PStr ''503 Server Error: Service Unavailable'')"
    by (simp_all add: entry_field_def)
  from failed_fetch_yields_one_error_event
         [OF f, of witness_render env_fragments "''app-logs''" default_options] e res
  have "plan_generator_stream witness_render mapping_found search_unavailable env_fragments
       ''app-logs'' default_options =
     ([error_event ''Failed to fetch index data: 503 Server Error: Service Unavailable''],
      [GetMapping, PostSearch], [])"
    by simp
  with f e show ?thesis by (simp add: error_event_def sse_def)
qed

subsection \<open>Prompt construction is total on well-formed input\<close>

lemma create_prompt_well_formed:
  assumes data: "index_data = PDict kvs"
    and hits: "get_hits index_data = Inr (PList hs)"
    and wf: "\<forall>h \<in> set (take 1000 hs). wf_hit h"
    and total: "is_ok (format_comma (dict_get kvs ''total_hits'' (PInt 0)))"
    and opts: "analysis_options = PDict options"
  shows "\<exists>p. create_prompt render index_name index_data analysis_options = Inr p"
proof -
  from sample_loop_wf [OF wf, of render 0 "[]"] obtain ds where
    "sample_loop render 0 (take 1000 hs) [] = Inr ds" by auto
  then have s: "sample_docs_of render index_data = Inr ds"
    using hits by (simp add: sample_docs_of_def then_exn_def py_slice_items_def)
  from total obtain t where t: "format_comma (dict_get kvs ''total_hits'' (PInt 0)) = Inr t"
    by (auto simp: is_ok_def split: sum.splits)
  show ?thesis
    using data hits s t opts
    by (simp add: create_prompt_def then_exn_def py_get_def py_len_def)
qed


end
